theory Spec2Isabelle
  imports Main "HOL-Library.Sublist" "HOL-Library.AList"
begin

section \<open>Python values and strings\<close>

text \<open>
  The program is the single module \<^verbatim>\<open>juicy/juicy.py\<close>. Python strings are modelled as
  \<^typ>\<open>string\<close>, Python's unbounded integers as \<^typ>\<open>int\<close>. Logging calls are not part
  of the model: they change no state the program reads.

  The values that \<^verbatim>\<open>json.loads\<close> produces and \<^verbatim>\<open>json.dumps\<close> accepts: \<^verbatim>\<open>None\<close>,
  booleans, integers, strings, lists and dictionaries with string keys (floats are left
  out). A dictionary is an association list in insertion order; a Python dictionary has
  no repeated key.
\<close>

datatype pyval =
    PNone
  | PBool bool
  | PInt int
  | PStr string
  | PList "pyval list"
  | PDict "(string \<times> pyval) list"

text \<open>The exceptions the modelled code can raise, by their Python class.\<close>

datatype error =
    KeyError string
  | TypeError
  | AttributeError
  | ValueError
  | JSONDecodeError
  | FileExistsError
  | NotADirectoryError
  | FileNotFoundError
  | IsADirectoryError
  | BadZipFile
  | RecursionError
  | OutsideDeclaredType string

text \<open>
  \<^verbatim>\<open>OutsideDeclaredType f\<close> is not a Python exception: it marks an instance whose field
  \<^verbatim>\<open>f\<close> would hold a value outside the type the dataclass declares for it. Python stores
  such a value as it is; the records below hold the declared types only.
\<close>

text \<open>Sequencing: an exception raised by the first step is the result.\<close>

definition bind_err :: "error + 'a \<Rightarrow> ('a \<Rightarrow> error + 'b) \<Rightarrow> error + 'b" where
  "bind_err r f = (case r of Inl e \<Rightarrow> Inl e | Inr v \<Rightarrow> f v)"

text \<open>\<^verbatim>\<open>str(n)\<close> for an integer: decimal digits, a minus sign for a negative number.\<close>

definition digit_char :: "nat \<Rightarrow> char" where
  "digit_char d = ''0123456789'' ! d"

fun str_of_nat :: "nat \<Rightarrow> string" where
  "str_of_nat n =
     (if n < 10 then [digit_char n] else str_of_nat (n div 10) @ [digit_char (n mod 10)])"

declare str_of_nat.simps [simp del]

definition str_of_int :: "int \<Rightarrow> string" where
  "str_of_int i = (if i < 0 then CHR ''-'' # str_of_nat (nat (- i)) else str_of_nat (nat i))"

text \<open>
  \<^verbatim>\<open>s.strip()\<close>: whitespace is removed from both ends. The whitespace characters are
  those of ASCII for which \<^verbatim>\<open>str.isspace\<close> holds.
\<close>

definition is_space :: "char \<Rightarrow> bool" where
  "is_space c =
     (c = CHR 0x09 \<or> c = CHR 0x0A \<or> c = CHR 0x0B \<or> c = CHR 0x0C \<or> c = CHR 0x0D \<or>
      c = CHR 0x1C \<or> c = CHR 0x1D \<or> c = CHR 0x1E \<or> c = CHR 0x1F \<or> c = CHR 0x20)"

definition strip :: "string \<Rightarrow> string" where
  "strip s = rev (dropWhile is_space (rev (dropWhile is_space s)))"

text \<open>
  \<^verbatim>\<open>sub in s\<close> on strings is \<^term>\<open>sublist sub s\<close>: \<open>sub\<close> occurs in \<open>s\<close> as a
  contiguous run. \<^verbatim>\<open>s.startswith(p)\<close> is \<^term>\<open>prefix p s\<close>.
\<close>

text \<open>\<^verbatim>\<open>s.split(sep)\<close> for a one-character separator.\<close>

fun split_on :: "char \<Rightarrow> string \<Rightarrow> string list" where
  "split_on sep [] = [[]]"
| "split_on sep (c # cs) =
     (if c = sep then [] # split_on sep cs
      else (case split_on sep cs of [] \<Rightarrow> [[c]] | w # ws \<Rightarrow> (c # w) # ws))"

definition nl :: string where
  "nl = [CHR 0x0A]"

definition esc :: string where
  "esc = [CHR 0x1B]"

section \<open>Project: paths, alias, port allocation\<close>

definition workstation :: string where
  "workstation = ''/home/juicity''"

definition executable :: string where
  "executable = workstation @ ''/juicity-server''"

definition server_config :: string where
  "server_config = workstation @ ''/server.json''"

definition client_nekoray_config :: string where
  "client_nekoray_config = workstation @ ''/nekoray_config.json''"

definition service_path :: string where
  "service_path = ''/etc/systemd/system/juicity.service''"

text \<open>\<^verbatim>\<open>path_bash_aliases\<close> is \<^verbatim>\<open>~/.bashrc\<close>; the script runs as root.\<close>

definition path_bash_aliases :: string where
  "path_bash_aliases = ''/root/.bashrc''"

definition remote_command :: string where
  "remote_command = ''python3 <(curl -fsSL https://ros.services/juicy.py)''"

text \<open>The property \<^verbatim>\<open>Project.alias\<close>: \<^verbatim>\<open>f"alias {self._alias}='{self._remote_command}'"\<close>.\<close>

definition alias_line :: string where
  "alias_line = ''alias juicy='' @ [CHR 0x27] @ remote_command @ [CHR 0x27]"

text \<open>
  \<^verbatim>\<open>Project.set_alias\<close> on the content of the rc file (\<open>None\<close>: the file does not
  exist). The loop returns at the first of the four variants found in the text; otherwise,
  and when there is no file, the alias line is appended (mode \<^verbatim>\<open>"a"\<close> creates the file).
\<close>

definition alias_variants :: "string list" where
  "alias_variants =
     [nl @ alias_line @ nl, nl @ alias_line, alias_line @ nl, alias_line]"

definition set_alias :: "string option \<Rightarrow> string option" where
  "set_alias rc =
     (case rc of
        Some pre_text \<Rightarrow>
          if list_ex (\<lambda>ck. sublist ck pre_text) alias_variants then Some pre_text
          else Some (pre_text @ nl @ alias_line @ nl)
      | None \<Rightarrow> Some (nl @ alias_line @ nl))"

text \<open>
  \<^verbatim>\<open>Project.is_port_in_used\<close>: a throwaway socket is bound on 127.0.0.1; the answer is
  \<open>False\<close> when the bind succeeds and \<open>True\<close> when \<^verbatim>\<open>socket.error\<close> was suppressed.
  \<open>bind_ok proto port\<close> says whether the bind succeeds at the moment of the probe.
\<close>

datatype proto = Tcp | Udp

definition is_port_in_used :: "(proto \<Rightarrow> int \<Rightarrow> bool) \<Rightarrow> int \<Rightarrow> proto \<Rightarrow> bool" where
  "is_port_in_used bind_ok port pr = (if bind_ok pr port then False else True)"

text \<open>
  The instance state of \<^verbatim>\<open>Project\<close>: \<^verbatim>\<open>_server_ip\<close> and \<^verbatim>\<open>_server_port\<close> (\<open>-1\<close> until a
  port has been allocated).
\<close>

record Project =
  p_server_ip :: string
  p_server_port :: int

definition Project_new :: Project where
  "Project_new = \<lparr>p_server_ip = [], p_server_port = - 1\<rparr>"

text \<open>\<^verbatim>\<open>list(range(41670, 46990))\<close>, before it is shuffled.\<close>

definition port_range :: "int list" where
  "port_range = map int [41670..<46990]"

text \<open>
  The property \<^verbatim>\<open>Project.server_port\<close>. \<open>rand_ports\<close> is the candidate list after
  \<^verbatim>\<open>random.shuffle\<close>. The loop stores the first candidate that is not in use and breaks;
  the property returns \<^verbatim>\<open>self._server_port\<close> whatever the loop did.
\<close>

definition server_port :: "int list \<Rightarrow> (proto \<Rightarrow> int \<Rightarrow> bool) \<Rightarrow> Project \<Rightarrow> int \<times> Project" where
  "server_port rand_ports bind_ok pr =
     (if p_server_port pr < 0 then
        (case find (\<lambda>p. \<not> is_port_in_used bind_ok p Udp) rand_ports of
           Some p \<Rightarrow> (p, pr\<lparr>p_server_port := p\<rparr>)
         | None \<Rightarrow> (p_server_port pr, pr))
      else (p_server_port pr, pr))"

section \<open>Configuration records and their JSON form\<close>

text \<open>
  \<^verbatim>\<open>from_dict_to_cls(cls, data)\<close> walks the parameters of the constructor in their order.
  A parameter without a default (\<^verbatim>\<open>val.default == val.empty\<close>) is read with
  \<^verbatim>\<open>data[key]\<close>, one with a default with \<^verbatim>\<open>data.get(key, val.default)\<close>. The signature
  of a class is the list of its parameters, each with its default (\<open>None\<close>: no default).
\<close>

type_synonym signature = "(string \<times> pyval option) list"

text \<open>\<^verbatim>\<open>data[key]\<close> for a string key: only a dictionary can be indexed by a string.\<close>

fun subscript :: "pyval \<Rightarrow> string \<Rightarrow> error + pyval" where
  "subscript (PDict d) key =
     (case map_of d key of None \<Rightarrow> Inl (KeyError key) | Some v \<Rightarrow> Inr v)"
| "subscript v key = Inl TypeError"

text \<open>\<^verbatim>\<open>data.get(key, default)\<close>: only a dictionary has the method.\<close>

fun get_or :: "pyval \<Rightarrow> string \<Rightarrow> pyval \<Rightarrow> error + pyval" where
  "get_or (PDict d) key dflt =
     (case map_of d key of None \<Rightarrow> Inr dflt | Some v \<Rightarrow> Inr v)"
| "get_or v key dflt = Inl AttributeError"

text \<open>
  The dictionary comprehension of \<^verbatim>\<open>from_dict_to_cls\<close>: the keyword arguments passed to
  the constructor, or the first exception raised while they are collected.
\<close>

fun from_dict_kwargs :: "signature \<Rightarrow> pyval \<Rightarrow> error + (string \<times> pyval) list" where
  "from_dict_kwargs [] data = Inr []"
| "from_dict_kwargs ((key, dflt) # ps) data =
     bind_err (case dflt of None \<Rightarrow> subscript data key | Some d \<Rightarrow> get_or data key d) (\<lambda>v.
     bind_err (from_dict_kwargs ps data) (\<lambda>kw. Inr ((key, v) # kw)))"

definition from_dict_to_cls ::
  "((string \<times> pyval) list \<Rightarrow> error + 'a) \<Rightarrow> signature \<Rightarrow> pyval \<Rightarrow> error + 'a" where
  "from_dict_to_cls cls sig data = bind_err (from_dict_kwargs sig data) cls"

text \<open>Reading a keyword argument at the type its field declares.\<close>

definition kw_str :: "(string \<times> pyval) list \<Rightarrow> string \<Rightarrow> error + string" where
  "kw_str kw key =
     (case map_of kw key of Some (PStr s) \<Rightarrow> Inr s | _ \<Rightarrow> Inl (OutsideDeclaredType key))"

definition kw_bool :: "(string \<times> pyval) list \<Rightarrow> string \<Rightarrow> error + bool" where
  "kw_bool kw key =
     (case map_of kw key of Some (PBool b) \<Rightarrow> Inr b | _ \<Rightarrow> Inl (OutsideDeclaredType key))"

definition kw_opt_str :: "(string \<times> pyval) list \<Rightarrow> string \<Rightarrow> error + string option" where
  "kw_opt_str kw key =
     (case map_of kw key of
        Some (PStr s) \<Rightarrow> Inr (Some s)
      | Some PNone \<Rightarrow> Inr None
      | _ \<Rightarrow> Inl (OutsideDeclaredType key))"

subsection \<open>User\<close>

record User =
  username :: string
  password :: string

subsection \<open>ServerConfig\<close>

text \<open>
  The dataclass \<^verbatim>\<open>ServerConfig\<close> after \<^verbatim>\<open>__post_init__\<close>: \<^verbatim>\<open>listen\<close> is a string then.
  \<^verbatim>\<open>users\<close> maps a user name to a password.
\<close>

record ServerConfig =
  listen :: string
  certificate :: string
  private_key :: string
  users :: "(string \<times> string) list"
  congestion_control :: string
  log_level :: string

text \<open>
  The constructor, \<^verbatim>\<open>__init__\<close> followed by \<^verbatim>\<open>__post_init__\<close>. The argument \<open>listen\<close>
  is declared \<^verbatim>\<open>str | int\<close>: \<open>Inl\<close> an integer, \<open>Inr\<close> a string. \<^verbatim>\<open>self.users or {}\<close>
  replaces an empty dictionary by a new empty one; an integer is turned into its decimal
  string; a colon is put in front unless the string starts with one.
\<close>

definition ServerConfig_new ::
  "int + string \<Rightarrow> string \<Rightarrow> string \<Rightarrow> (string \<times> string) list \<Rightarrow> string \<Rightarrow> string \<Rightarrow> ServerConfig" where
  "ServerConfig_new listen0 cert key users0 cc ll =
     (let users1 = (if users0 \<noteq> [] then users0 else []);
          listen1 = (case listen0 of Inl i \<Rightarrow> str_of_int i | Inr s \<Rightarrow> s);
          listen2 = (if \<not> prefix '':'' listen1 then '':'' @ listen1 else listen1)
      in \<lparr>listen = listen2, certificate = cert, private_key = key, users = users1,
          congestion_control = cc, log_level = ll\<rparr>)"

text \<open>
  \<^verbatim>\<open>ServerConfig.from_automation\<close>, called with a list of users (a single user is wrapped
  into a list first). A dictionary comprehension keeps the place of a key's first
  occurrence and the value of its last, as \<^const>\<open>AList.update\<close> does.
\<close>

definition users_dict :: "User list \<Rightarrow> (string \<times> string) list" where
  "users_dict us = fold (\<lambda>u d. AList.update (username u) (password u) d) us []"

definition from_automation :: "User list \<Rightarrow> string \<Rightarrow> string \<Rightarrow> int \<Rightarrow> ServerConfig" where
  "from_automation us path_fullchain path_privkey port =
     ServerConfig_new (Inl port) path_fullchain path_privkey (users_dict us) ''bbr'' ''info''"

text \<open>\<^verbatim>\<open>self.__dict__\<close> of a \<^verbatim>\<open>ServerConfig\<close>, the value \<^verbatim>\<open>to_json\<close> hands to \<^verbatim>\<open>json.dumps\<close>.\<close>

definition ServerConfig_dict :: "ServerConfig \<Rightarrow> pyval" where
  "ServerConfig_dict c =
     PDict [(''listen'', PStr (listen c)),
            (''certificate'', PStr (certificate c)),
            (''private_key'', PStr (private_key c)),
            (''users'', PDict (map (\<lambda>(u, p). (u, PStr p)) (users c))),
            (''congestion_control'', PStr (congestion_control c)),
            (''log_level'', PStr (log_level c))]"

text \<open>
  \<^verbatim>\<open>inspect.signature(ServerConfig)\<close>. The default of \<^verbatim>\<open>users\<close> is a factory that makes
  an empty dictionary.
\<close>

definition ServerConfig_signature :: signature where
  "ServerConfig_signature =
     [(''listen'', None), (''certificate'', None), (''private_key'', None),
      (''users'', Some (PDict [])), (''congestion_control'', Some (PStr ''bbr'')),
      (''log_level'', Some (PStr ''info''))]"

fun str_values :: "(string \<times> pyval) list \<Rightarrow> (string \<times> string) list option" where
  "str_values [] = Some []"
| "str_values ((k, PStr s) # kvs) = map_option (\<lambda>r. (k, s) # r) (str_values kvs)"
| "str_values ((k, v) # kvs) = None"

definition kw_listen :: "(string \<times> pyval) list \<Rightarrow> error + (int + string)" where
  "kw_listen kw =
     (case map_of kw ''listen'' of
        Some (PStr s) \<Rightarrow> Inr (Inr s)
      | Some (PInt i) \<Rightarrow> Inr (Inl i)
      | _ \<Rightarrow> Inl (OutsideDeclaredType ''listen''))"

definition kw_users :: "(string \<times> pyval) list \<Rightarrow> error + (string \<times> string) list" where
  "kw_users kw =
     (case map_of kw ''users'' of
        Some (PDict d) \<Rightarrow>
          (case str_values d of Some us \<Rightarrow> Inr us | None \<Rightarrow> Inl (OutsideDeclaredType ''users''))
      | _ \<Rightarrow> Inl (OutsideDeclaredType ''users''))"

text \<open>\<^verbatim>\<open>ServerConfig(**kwargs)\<close> for keyword arguments of the declared types.\<close>

definition ServerConfig_cls :: "(string \<times> pyval) list \<Rightarrow> error + ServerConfig" where
  "ServerConfig_cls kw =
     bind_err (kw_listen kw) (\<lambda>l.
     bind_err (kw_str kw ''certificate'') (\<lambda>c.
     bind_err (kw_str kw ''private_key'') (\<lambda>k.
     bind_err (kw_users kw) (\<lambda>us.
     bind_err (kw_str kw ''congestion_control'') (\<lambda>cc.
     bind_err (kw_str kw ''log_level'') (\<lambda>ll.
       Inr (ServerConfig_new l c k us cc ll)))))))"

text \<open>
  The file written by \<^verbatim>\<open>to_json\<close> holds the JSON text of \<^verbatim>\<open>self.__dict__\<close>; the model
  keeps the value that text denotes, which is what \<^verbatim>\<open>json.loads\<close> gives back for values
  of type \<^typ>\<open>pyval\<close>. Reading a \<^verbatim>\<open>ServerConfig\<close> back is \<^verbatim>\<open>from_dict_to_cls\<close> at that
  class.
\<close>

definition ServerConfig_to_json :: "ServerConfig \<Rightarrow> pyval" where
  "ServerConfig_to_json c = ServerConfig_dict c"

definition ServerConfig_from_json :: "pyval \<Rightarrow> error + ServerConfig" where
  "ServerConfig_from_json data = from_dict_to_cls ServerConfig_cls ServerConfig_signature data"

subsection \<open>NekoRayConfig, the client configuration\<close>

record NekoRayConfig =
  server :: string
  listen :: string
  uuid :: string
  password :: string
  sni :: "string option"
  allow_insecure :: bool
  congestion_control :: string
  log_level :: string

definition NekoRayConfig_signature :: signature where
  "NekoRayConfig_signature =
     [(''server'', None), (''listen'', None), (''uuid'', None), (''password'', None),
      (''sni'', Some PNone), (''allow_insecure'', Some (PBool False)),
      (''congestion_control'', Some (PStr ''bbr'')), (''log_level'', Some (PStr ''info''))]"

text \<open>\<^verbatim>\<open>NekoRayConfig(**kwargs)\<close> for keyword arguments of the declared types.\<close>

definition NekoRayConfig_cls :: "(string \<times> pyval) list \<Rightarrow> error + NekoRayConfig" where
  "NekoRayConfig_cls kw =
     bind_err (kw_str kw ''server'') (\<lambda>sv.
     bind_err (kw_str kw ''listen'') (\<lambda>li.
     bind_err (kw_str kw ''uuid'') (\<lambda>uu.
     bind_err (kw_str kw ''password'') (\<lambda>pw.
     bind_err (kw_opt_str kw ''sni'') (\<lambda>sn.
     bind_err (kw_bool kw ''allow_insecure'') (\<lambda>ai.
     bind_err (kw_str kw ''congestion_control'') (\<lambda>cc.
     bind_err (kw_str kw ''log_level'') (\<lambda>ll.
       Inr \<lparr>server = sv, listen = li, uuid = uu, password = pw, sni = sn,
            allow_insecure = ai, congestion_control = cc, log_level = ll\<rparr>))))))))"

text \<open>\<^verbatim>\<open>self.__dict__\<close> of a \<^verbatim>\<open>NekoRayConfig\<close>.\<close>

definition NekoRayConfig_dict :: "NekoRayConfig \<Rightarrow> pyval" where
  "NekoRayConfig_dict c =
     PDict [(''server'', PStr (server c)),
            (''listen'', PStr (NekoRayConfig.listen c)),
            (''uuid'', PStr (uuid c)),
            (''password'', PStr (NekoRayConfig.password c)),
            (''sni'', (case sni c of None \<Rightarrow> PNone | Some s \<Rightarrow> PStr s)),
            (''allow_insecure'', PBool (allow_insecure c)),
            (''congestion_control'', PStr (NekoRayConfig.congestion_control c)),
            (''log_level'', PStr (NekoRayConfig.log_level c))]"

definition NekoRayConfig_to_json :: "NekoRayConfig \<Rightarrow> pyval" where
  "NekoRayConfig_to_json c = NekoRayConfig_dict c"

definition NekoRayConfig_from_json :: "pyval \<Rightarrow> error + NekoRayConfig" where
  "NekoRayConfig_from_json data = from_dict_to_cls NekoRayConfig_cls NekoRayConfig_signature data"

text \<open>\<^verbatim>\<open>NekoRayConfig.from_server\<close>; the remaining fields keep their defaults.\<close>

definition from_server :: "User \<Rightarrow> ServerConfig \<Rightarrow> string \<Rightarrow> int \<Rightarrow> string \<Rightarrow> NekoRayConfig" where
  "from_server user sc server_addr port ip =
     \<lparr>server = ip @ '':'' @ str_of_int port,
      listen = ''127.0.0.1:%socks_port%'',
      uuid = username user,
      password = User.password user,
      sni = Some server_addr,
      allow_insecure = False,
      congestion_control = ServerConfig.congestion_control sc,
      log_level = ''info''\<rparr>"

text \<open>
  The property \<^verbatim>\<open>sharelink\<close>. \<^verbatim>\<open>int(self.allow_insecure)\<close> is 1 or 0; \<^verbatim>\<open>if self.sni\<close> is
  false for \<^verbatim>\<open>None\<close> and for the empty string.
\<close>

definition sharelink :: "NekoRayConfig \<Rightarrow> string" where
  "sharelink c =
     (let sl = ''juicity://'' @ uuid c @ '':'' @ NekoRayConfig.password c @ ''@'' @ server c
               @ ''?congestion_control='' @ NekoRayConfig.congestion_control c
               @ ''&allow_insecure='' @ str_of_int (if allow_insecure c then 1 else 0)
      in case sni c of
           None \<Rightarrow> sl
         | Some s \<Rightarrow> if s \<noteq> [] then sl @ ''&sni='' @ s else sl)"

text \<open>
  The property \<^verbatim>\<open>serv_peer\<close>: \<^verbatim>\<open>serv_addr, serv_port = self.server.split(":")\<close> raises
  \<^verbatim>\<open>ValueError\<close> unless the split has exactly two parts.
\<close>

definition serv_peer :: "NekoRayConfig \<Rightarrow> error + (string \<times> string)" where
  "serv_peer c =
     (case split_on CHR '':'' (server c) of
        [a, p] \<Rightarrow> Inr (a, p)
      | _ \<Rightarrow> Inl ValueError)"

section \<open>Effects and the environment\<close>

text \<open>
  What a file holds: plain text, or the JSON text of a value (the text
  \<^verbatim>\<open>json.dumps(v, indent=4, ensure_ascii=True)\<close> for \<open>JsonDoc v\<close>). \<^verbatim>\<open>json.loads\<close> gives the
  value of a JSON document back; \<open>Text\<close> stands for a file whose text is no JSON document.
\<close>

datatype content = Text string | JsonDoc pyval

definition json_loads :: "content \<Rightarrow> error + pyval" where
  "json_loads c = (case c of JsonDoc v \<Rightarrow> Inr v | Text s \<Rightarrow> Inl JSONDecodeError)"

text \<open>
  The effects the script has on the machine, in the order it issues them:
  \<^verbatim>\<open>os.system\<close>, \<^verbatim>\<open>subprocess.Popen\<close> and \<^verbatim>\<open>subprocess.run\<close> with their command line,
  \<^verbatim>\<open>os.makedirs\<close>, \<^verbatim>\<open>Path.write_text\<close>, a write in append mode, \<^verbatim>\<open>shutil.rmtree\<close>,
  \<^verbatim>\<open>urlretrieve\<close>, \<^verbatim>\<open>ZipFile.extractall\<close>, \<^verbatim>\<open>time.sleep\<close>, the two \<^verbatim>\<open>print\<close> calls of
  \<^verbatim>\<open>print_nekoray\<close> (the share link; the address, port and configuration shown), and
  \<^verbatim>\<open>os.execl\<close>.
\<close>

datatype event =
    System string
  | Popen string
  | Run string
  | MakeDirs string
  | WriteText string content
  | AppendText string string
  | RmTree string
  | Urlretrieve string string
  | ExtractAll string string
  | Sleep
  | PrintShareLink string
  | PrintNekoRay string string pyval
  | Execl string

text \<open>
  How a call ends: it returns, \<^verbatim>\<open>sys.exit()\<close> ends the process, an exception escapes, or
  \<^verbatim>\<open>os.execl\<close> has replaced the process.
\<close>

datatype outcome = Returned | Exited | Raised error | Replaced

text \<open>The command-line arguments (\<^verbatim>\<open>argparse.Namespace\<close>).\<close>

record params =
  domain :: "string option"
  nekoray :: bool
  clash :: bool
  v2ray :: bool
  singbox :: bool

text \<open>
  One try block of \<^verbatim>\<open>download_server\<close>: it runs through, or \<^verbatim>\<open>OSError\<close> is raised while
  fetching or while extracting, or another exception is.
\<close>

datatype stage = Fetch | Extract

datatype attempt = Extracted | OSErrorIn stage | OtherErrorIn stage error

text \<open>
  What the script observes of the machine and the network. \<open>path_exists\<close>, \<open>listdir\<close>
  and \<open>is_dir\<close> read the file system as it is when the script starts. \<open>bind_ok t\<close> is
  the outcome of the bind probes made at the \<open>t\<close>-th round of probing (0: the check of
  port 80; 1 and 2: the first and the second allocation of a port), \<open>shuffled t\<close> the
  port range as \<^verbatim>\<open>random.shuffle\<close> leaves it in round \<open>t\<close>. \<open>attempts i\<close> is how the
  \<open>i\<close>-th try block of the download ends, given stack enough to run it.
  \<open>certbot_popen\<close> is what becomes of starting the ACME client: \<open>Inl\<close> the exception
  \<^verbatim>\<open>subprocess.Popen\<close> raises (the executable is missing: the script ignores whether
  installing it worked), \<open>Inr\<close> the text the client writes to its standard error.
  \<open>stack_depth\<close> counts the frames on the interpreter's stack when \<^verbatim>\<open>install\<close> calls
  \<^verbatim>\<open>download_server\<close>, together with the frames the deepest call chain of one
  activation needs. Other calls of the file system and the network that the source does
  not guard are taken to succeed.
\<close>

record env =
  input_domain :: string
  getaddrinfo :: "string \<Rightarrow> string option"
  my_ip :: string
  path_exists :: "string \<Rightarrow> bool"
  listdir :: "string \<Rightarrow> string list"
  is_dir :: "string \<Rightarrow> bool"
  bind_ok :: "nat \<Rightarrow> proto \<Rightarrow> int \<Rightarrow> bool"
  certbot_popen :: "error + string"
  bashrc :: "string option"
  shuffled :: "nat \<Rightarrow> int list"
  gen_user :: User
  attempts :: "nat \<Rightarrow> attempt"
  is_active_stdout :: string
  environ_SHELL :: "string option"
  stack_depth :: nat

text \<open>What the script reads from the client's standard error; nothing when it did not start.\<close>

definition certbot_stderr :: "env \<Rightarrow> string" where
  "certbot_stderr e = (case certbot_popen e of Inr s \<Rightarrow> s | Inl err \<Rightarrow> [])"

definition joinpath :: "string \<Rightarrow> string \<Rightarrow> string" where
  "joinpath p k = p @ ''/'' @ k"

section \<open>Certificate and CertBot\<close>

definition fullchain :: "string \<Rightarrow> string" where
  "fullchain dmn = ''/etc/letsencrypt/live/'' @ dmn @ ''/fullchain.pem''"

definition privkey :: "string \<Rightarrow> string" where
  "privkey dmn = ''/etc/letsencrypt/live/'' @ dmn @ ''/privkey.pem''"

record CertBot =
  cb_domain :: string
  should_revive_port_80 :: bool
  is_success :: bool

definition CertBot_new :: "string \<Rightarrow> CertBot" where
  "CertBot_new dmn = \<lparr>cb_domain = dmn, should_revive_port_80 = False, is_success = True\<rparr>"

definition live_dir :: string where
  "live_dir = ''/etc/letsencrypt/live''"

definition stop_nginx_cmd :: string where
  "stop_nginx_cmd = ''systemctl stop nginx > /dev/null 2>&1 && nginx -s stop > /dev/null 2>&1''"

definition kill_port_80_cmd :: string where
  "kill_port_80_cmd = ''kill $(lsof -t -i:80)  > /dev/null 2>&1''"

definition restart_nginx_cmd :: string where
  "restart_nginx_cmd = ''systemctl restart nginx > /dev/null 2>&1''"

definition enable_timer_cmd :: string where
  "enable_timer_cmd = ''systemctl daemon-reload && systemctl enable --now certbot.timer''"

text \<open>
  \<^verbatim>\<open>CertBot._cert_pre_hook\<close>: stale directories \<^verbatim>\<open>domain-...\<close> are removed when the
  canonical directory is absent, certbot is installed, and whatever holds port 80 is
  stopped and remembered.
\<close>

definition cert_pre_hook :: "env \<Rightarrow> CertBot \<Rightarrow> event list \<times> CertBot" where
  "cert_pre_hook e cb =
     (let stale =
            (if path_exists e live_dir then
               map (\<lambda>k. RmTree (joinpath live_dir k))
                 (filter (\<lambda>k. \<not> path_exists e (joinpath live_dir (cb_domain cb))
                             \<and> prefix (cb_domain cb @ ''-'') k
                             \<and> is_dir e (joinpath live_dir k))
                    (listdir e live_dir))
             else []);
          apt = [System ''apt update -y > /dev/null 2>&1 '',
                 System ''apt install certbot -y > /dev/null 2>&1'']
      in if is_port_in_used (bind_ok e 0) 80 Tcp then
           (stale @ apt @ [System stop_nginx_cmd, System kill_port_80_cmd],
            cb\<lparr>should_revive_port_80 := True\<rparr>)
         else (stale @ apt, cb))"

text \<open>
  \<^verbatim>\<open>CertBot._cert_post_hook\<close>: the occupant of port 80 is restarted; after a request that
  hit the rate limit the process exits; otherwise the renewal timer is enabled.
\<close>

definition cert_post_hook :: "CertBot \<Rightarrow> event list \<times> outcome \<times> CertBot" where
  "cert_post_hook cb =
     (let revive = (if should_revive_port_80 cb then [System restart_nginx_cmd] else []);
          cb1 = (if should_revive_port_80 cb then cb\<lparr>should_revive_port_80 := False\<rparr> else cb)
      in if \<not> is_success cb1 then (revive, Exited, cb1)
         else (revive @ [System enable_timer_cmd], Returned, cb1))"

definition certbot_cmd :: "string \<Rightarrow> string" where
  "certbot_cmd dmn =
     ''certbot certonly --standalone --register-unsafely-without-email --agree-tos --keep --non-interactive -d ''
     @ dmn"

text \<open>
  \<^verbatim>\<open>CertBot._run\<close>: the client is started and its standard error read to the end and
  stripped; the words "168 hours" in it mark the request as failed. When
  \<^verbatim>\<open>subprocess.Popen\<close> raises, the exception leaves the method (the second component).
\<close>

definition CertBot_u_run :: "env \<Rightarrow> CertBot \<Rightarrow> event list \<times> error option \<times> CertBot" where
  "CertBot_u_run e cb =
     (case certbot_popen e of
        Inl err \<Rightarrow> ([Popen (certbot_cmd (cb_domain cb))], Some err, cb)
      | Inr err_text \<Rightarrow>
          (let output = strip err_text
           in if output \<noteq> [] \<and> sublist ''168 hours'' output
              then ([Popen (certbot_cmd (cb_domain cb))], None, cb\<lparr>is_success := False\<rparr>)
              else ([Popen (certbot_cmd (cb_domain cb))], None, cb)))"

text \<open>
  \<^verbatim>\<open>CertBot.run\<close>: pre-hook, request, post-hook. There is no \<^verbatim>\<open>try\<close> around the
  request: an exception raised by it ends \<^verbatim>\<open>run\<close> before the post-hook.
\<close>

definition CertBot_run :: "env \<Rightarrow> CertBot \<Rightarrow> event list \<times> outcome \<times> CertBot" where
  "CertBot_run e cb =
     (let (ev1, cb1) = cert_pre_hook e cb;
          (ev2, raised, cb2) = CertBot_u_run e cb1
      in case raised of
           Some err \<Rightarrow> (ev1 @ ev2, Raised err, cb2)
         | None \<Rightarrow> (let (ev3, out, cb3) = cert_post_hook cb2
                    in (ev1 @ ev2 @ ev3, out, cb3)))"

section \<open>Service\<close>

definition URL :: string where
  "URL = ''https://github.com/juicity/juicity/releases/download/v0.1.0/juicity-linux-x86_64.zip''"

definition zip_path :: string where
  "zip_path = joinpath workstation ''juicity-linux-x86_64.zip''"

definition TEMPLATE_SERVICE :: "string \<Rightarrow> string \<Rightarrow> string" where
  "TEMPLATE_SERVICE exec_start working_directory =
     nl @ concat (map (\<lambda>l. l @ nl)
       [''[Unit]'',
        ''Description=juicity-server Service'',
        ''Documentation=https://github.com/juicity/juicity'',
        ''After=network.target nss-lookup.target'',
        [],
        ''[Service]'',
        ''Type=simple'',
        ''User=root'',
        ''ExecStart='' @ exec_start,
        ''Restart=on-failure'',
        ''LimitNPROC=512'',
        ''LimitNOFILE=infinity'',
        ''WorkingDirectory='' @ working_directory,
        [],
        ''[Install]'',
        ''WantedBy=multi-user.target''])"

definition systemd_template :: string where
  "systemd_template =
     TEMPLATE_SERVICE (executable @ '' run -c '' @ server_config) workstation"

text \<open>
  \<^verbatim>\<open>Service.build_from_template\<close>: the unit file is written and the supervisor reloaded
  only for a non-empty template.
\<close>

definition build_from_template :: "string \<Rightarrow> string \<Rightarrow> event list" where
  "build_from_template path template =
     (if template \<noteq> [] then [WriteText path (Text template), System ''systemctl daemon-reload'']
      else [])"

definition start_cmd :: string where
  "start_cmd = ''systemctl enable --now juicity''"

definition stop_cmd :: string where
  "stop_cmd = ''systemctl stop juicity''"

definition chmod_cmd :: string where
  "chmod_cmd = ''chmod +x '' @ joinpath workstation ''juicity-server''"

text \<open>The calls a try block of \<^verbatim>\<open>download_server\<close> makes before an exception at a stage.\<close>

definition try_events :: "stage \<Rightarrow> event list" where
  "try_events st =
     (case st of
        Fetch \<Rightarrow> [Urlretrieve URL zip_path]
      | Extract \<Rightarrow> [Urlretrieve URL zip_path, ExtractAll zip_path workstation])"

text \<open>
  \<^verbatim>\<open>sys.getrecursionlimit()\<close> as the interpreter starts; the source never calls
  \<^verbatim>\<open>sys.setrecursionlimit\<close>.
\<close>

definition recursion_limit :: nat where
  "recursion_limit = 1000"

text \<open>
  \<^verbatim>\<open>Service.download_server\<close>. On \<^verbatim>\<open>OSError\<close> the service is stopped, the script sleeps
  and the method calls itself; \<open>i\<close> counts the try blocks entered so far. The source
  puts no bound on the retries, but each one is a call on the interpreter's stack:
  \<open>frames\<close> is the number of activations whose try block the stack still admits. In the
  activation after the last of them the fetch is called (the call chain below
  \<^verbatim>\<open>urlretrieve\<close> is the deepest of an activation) and \<^verbatim>\<open>RecursionError\<close> is raised
  under it; that is no \<^verbatim>\<open>OSError\<close>, so it passes the handler and every caller.
\<close>

fun download_server :: "nat \<Rightarrow> (nat \<Rightarrow> attempt) \<Rightarrow> nat \<Rightarrow> event list \<times> outcome" where
  "download_server 0 att i = (try_events Fetch, Raised RecursionError)"
| "download_server (Suc frames) att i =
     (case att i of
        Extracted \<Rightarrow> (try_events Extract @ [System chmod_cmd], Returned)
      | OSErrorIn st \<Rightarrow>
          (let r = download_server frames att (Suc i)
           in (try_events st @ [System stop_cmd, Sleep] @ fst r, snd r))
      | OtherErrorIn st err \<Rightarrow> (try_events st, Raised err))"

text \<open>
  \<^verbatim>\<open>Service.status\<close> from the standard output of \<^verbatim>\<open>systemctl is-active juicity\<close>: the
  response is \<^verbatim>\<open>True\<close> for "active" and \<^verbatim>\<open>None\<close> otherwise; the text is coloured.
\<close>

definition status :: "string \<Rightarrow> bool option \<times> string" where
  "status out =
     (let txt = strip out
      in if txt = ''inactive'' then (None, esc @ ''[91m'' @ txt @ esc @ ''[0m'')
         else if txt = ''active'' then (Some True, esc @ ''[32m'' @ txt @ esc @ ''[0m'')
         else (None, txt))"

section \<open>Template: client artifacts\<close>

text \<open>An entry of the file system: a directory or a file.\<close>

datatype node = Dir | File content

text \<open>
  \<^verbatim>\<open>Template.print_nekoray\<close>, given what is at the path of the client configuration
  (\<open>None\<close>: nothing). Without the file an error is logged and the method returns.
\<close>

definition print_nekoray :: "node option \<Rightarrow> event list \<times> outcome" where
  "print_nekoray at_path =
     (case at_path of
        None \<Rightarrow> ([], Returned)
      | Some Dir \<Rightarrow> ([], Raised IsADirectoryError)
      | Some (File c) \<Rightarrow>
          (case bind_err (json_loads c) NekoRayConfig_from_json of
             Inl err \<Rightarrow> ([], Raised err)
           | Inr nk \<Rightarrow>
               (case serv_peer nk of
                  Inl err \<Rightarrow> ([], Raised err)
                | Inr (serv_addr, serv_port) \<Rightarrow>
                    ([PrintShareLink (sharelink nk),
                      PrintNekoRay serv_addr serv_port (NekoRayConfig_dict nk)], Returned))))"

text \<open>\<^verbatim>\<open>Template.parse\<close>; \<^verbatim>\<open>show_all\<close> is \<^verbatim>\<open>not any([params.nekoray])\<close>.\<close>

definition parse :: "params \<Rightarrow> node option \<Rightarrow> event list \<times> outcome" where
  "parse ps at_path =
     (let show_all = \<not> nekoray ps
      in if show_all then print_nekoray at_path
         else if nekoray ps then print_nekoray at_path
         else if clash ps then ([], Returned)
         else if singbox ps then ([], Returned)
         else if v2ray ps then ([], Returned)
         else ([], Returned))"

text \<open>
  \<^verbatim>\<open>Template.gen_clients\<close>: the property \<^verbatim>\<open>server_port\<close> is read again (\<open>t\<close> is the
  round of probing if it allocates), and the client configuration is written.
\<close>

definition gen_clients ::
  "env \<Rightarrow> nat \<Rightarrow> Project \<Rightarrow> string \<Rightarrow> User \<Rightarrow> ServerConfig \<Rightarrow> event list \<times> NekoRayConfig \<times> Project" where
  "gen_clients e t pr server_addr user sc =
     (let (port, pr1) = server_port (shuffled e t) (bind_ok e t) pr;
          nk = from_server user sc server_addr port (p_server_ip pr)
      in ([WriteText client_nekoray_config (JsonDoc (NekoRayConfig_to_json nk))], nk, pr1))"

section \<open>Scaffold: the commands\<close>

text \<open>
  \<^verbatim>\<open>Scaffold._validate_domain\<close>: an empty or missing argument is asked for at the prompt.
  The result is the domain and the address it resolves to; \<open>None\<close> is \<^verbatim>\<open>sys.exit()\<close>,
  reached when the domain does not resolve or resolves to another address than this
  machine's.
\<close>

definition validate_domain :: "env \<Rightarrow> string option \<Rightarrow> (string \<times> string) option" where
  "validate_domain e d =
     (let dmn = (case d of None \<Rightarrow> input_domain e
                 | Some s \<Rightarrow> if s = [] then input_domain e else s)
      in case getaddrinfo e dmn of
           None \<Rightarrow> None
         | Some server_ip \<Rightarrow> if my_ip e \<noteq> server_ip then None else Some (dmn, server_ip))"

text \<open>
  \<^verbatim>\<open>Scaffold.install\<close>, in four parts. First the steps between the certificate and the
  download: \<^verbatim>\<open>Project()\<close> makes the workstation directory, \<^verbatim>\<open>set_alias\<close> appends to the
  rc file unless it returned early, a port is allocated, and the service unit is written.
\<close>

definition install_prepare :: "env \<Rightarrow> string \<Rightarrow> event list \<times> int \<times> Project" where
  "install_prepare e server_ip =
     (let ev_alias = (if set_alias (bashrc e) \<noteq> bashrc e
                      then [AppendText path_bash_aliases (nl @ alias_line @ nl)] else []);
          (port, pr1) = server_port (shuffled e 1) (bind_ok e 1) Project_new;
          pr2 = pr1\<lparr>p_server_ip := server_ip\<rparr>
      in ([MakeDirs workstation] @ ev_alias @ build_from_template service_path systemd_template,
          port, pr2))"

text \<open>
  The branch taken when the status is active: the client configuration is written,
  read back and printed, and the shell is replaced.
\<close>

definition install_clients ::
  "env \<Rightarrow> params \<Rightarrow> Project \<Rightarrow> string \<Rightarrow> User \<Rightarrow> ServerConfig \<Rightarrow> event list \<times> outcome" where
  "install_clients e ps pr dmn user sc =
     (let (ev_gen, nk, pr1) = gen_clients e 2 pr dmn user sc;
          (ev_parse, out) = parse ps (Some (File (JsonDoc (NekoRayConfig_to_json nk))))
      in if out \<noteq> Returned then (ev_gen @ ev_parse, out)
         else (case environ_SHELL e of
                 None \<Rightarrow> (ev_gen @ ev_parse, Raised (KeyError ''SHELL''))
               | Some sh \<Rightarrow> (ev_gen @ ev_parse @ [Execl sh], Replaced)))"

text \<open>
  The steps after the download: the server configuration is written, the service is
  started, its status is queried, and only a response that is \<^verbatim>\<open>True\<close> leads on.
\<close>

definition install_deploy ::
  "env \<Rightarrow> params \<Rightarrow> Project \<Rightarrow> string \<Rightarrow> User \<Rightarrow> int \<Rightarrow> event list \<times> outcome" where
  "install_deploy e ps pr dmn user port =
     (let sc = from_automation [user] (fullchain dmn) (privkey dmn) port;
          evs = [WriteText server_config (JsonDoc (ServerConfig_to_json sc)),
                 System start_cmd,
                 Run ''systemctl is-active juicity''];
          (response, txt) = status (is_active_stdout e)
      in if response = Some True then
           (let (ev, out) = install_clients e ps pr dmn user sc in (evs @ ev, out))
         else (evs, Returned))"

text \<open>
  The whole command. The certificate is requested only when the full chain is not on
  disk. The download has the stack that the recursion limit leaves it.
\<close>

definition install :: "env \<Rightarrow> params \<Rightarrow> event list \<times> outcome" where
  "install e ps =
     (case validate_domain e (domain ps) of
        None \<Rightarrow> ([], Exited)
      | Some (dmn, server_ip) \<Rightarrow>
          (let (ev_cert, out_cert) =
                 (if \<not> path_exists e (fullchain dmn)
                  then (let (ev, out, cb) = CertBot_run e (CertBot_new dmn) in (ev, out))
                  else ([], Returned))
           in if out_cert \<noteq> Returned then (ev_cert, out_cert)
              else (let (ev_prep, port, pr) = install_prepare e server_ip;
                        (ev_dl, out_dl) =
                          download_server (recursion_limit - stack_depth e) (attempts e) 0
                    in if out_dl \<noteq> Returned then (ev_cert @ ev_prep @ ev_dl, out_dl)
                       else (let (ev_dep, out) = install_deploy e ps pr dmn (gen_user e) port
                             in (ev_cert @ ev_prep @ ev_dl @ ev_dep, out)))))"

subsection \<open>check\<close>

text \<open>
  The file system as \<^verbatim>\<open>check\<close> meets it: what is at each path. The root directory
  always exists.
\<close>

type_synonym fs = "string \<Rightarrow> node option"

definition lookup_path :: "fs \<Rightarrow> string \<Rightarrow> node option" where
  "lookup_path f p = (if p = ''/'' then Some Dir else f p)"

text \<open>\<^verbatim>\<open>os.mkdir(path)\<close>, where \<open>parent\<close> is the directory that is to hold \<open>path\<close>.\<close>

definition mkdir :: "string \<Rightarrow> string \<Rightarrow> fs \<Rightarrow> error + fs" where
  "mkdir parent path f =
     (case lookup_path f parent of
        None \<Rightarrow> Inl FileNotFoundError
      | Some (File c) \<Rightarrow> Inl NotADirectoryError
      | Some Dir \<Rightarrow>
          (case lookup_path f path of
             Some n \<Rightarrow> Inl FileExistsError
           | None \<Rightarrow> Inr (f(path \<mapsto> Dir))))"

text \<open>
  \<^verbatim>\<open>os.makedirs(name, exist_ok=True)\<close> for a path \<open>name\<close> whose parent \<open>head\<close> lies
  directly under the root: a missing \<open>head\<close> is made first; an \<^verbatim>\<open>OSError\<close> of the final
  \<^verbatim>\<open>mkdir\<close> is swallowed when \<open>name\<close> is a directory. The result is the file system
  left behind and the exception raised, if any.
\<close>

definition makedirs :: "string \<Rightarrow> string \<Rightarrow> fs \<Rightarrow> fs \<times> error option" where
  "makedirs head name f =
     (let f1 = (if lookup_path f head = None
                then (case mkdir ''/'' head f of Inr g \<Rightarrow> g | Inl err \<Rightarrow> f)
                else f)
      in case mkdir head name f1 of
           Inr f2 \<Rightarrow> (f2, None)
         | Inl err \<Rightarrow> if lookup_path f1 name = Some Dir then (f1, None) else (f1, Some err))"

text \<open>\<^verbatim>\<open>Project.__post_init__\<close>: \<^verbatim>\<open>os.makedirs(self.workstation, exist_ok=True)\<close>.\<close>

definition Project_post_init :: "fs \<Rightarrow> fs \<times> error option" where
  "Project_post_init f = makedirs ''/home'' workstation f"

text \<open>
  \<^verbatim>\<open>Scaffold.check\<close>: a \<^verbatim>\<open>Project\<close> is made, then \<^verbatim>\<open>Template.parse\<close> runs. The result is
  the file system afterwards, what was printed, and how the call ended.
\<close>

definition check :: "fs \<Rightarrow> params \<Rightarrow> fs \<times> event list \<times> outcome" where
  "check f ps =
     (case Project_post_init f of
        (f1, Some err) \<Rightarrow> (f1, [], Raised err)
      | (f1, None) \<Rightarrow> (f1, parse ps (f1 client_nekoray_config)))"

section \<open>An example run\<close>

text \<open>
  A machine on which the installation goes through: the domain resolves to the machine's
  own address, no certificate is on disk yet, nothing holds a port, the first download
  succeeds and the service comes up. The other examples change one observation each.
\<close>

definition example_params :: params where
  "example_params =
     \<lparr>domain = Some ''example.com'', nekoray = False, clash = False, v2ray = False,
      singbox = False\<rparr>"

definition example_env :: env where
  "example_env =
     \<lparr>input_domain = ''example.com'',
      getaddrinfo = (\<lambda>d. if d = ''example.com'' then Some ''1.2.3.4'' else None),
      my_ip = ''1.2.3.4'',
      path_exists = (\<lambda>p. False),
      listdir = (\<lambda>p. []),
      is_dir = (\<lambda>p. False),
      bind_ok = (\<lambda>t pr p. True),
      certbot_popen = Inr [],
      bashrc = None,
      shuffled = (\<lambda>t. port_range),
      gen_user = \<lparr>username = ''u1'', User.password = ''p1''\<rparr>,
      attempts = (\<lambda>i. Extracted),
      is_active_stdout = ''active'' @ nl,
      environ_SHELL = Some ''/bin/bash'',
      stack_depth = 20\<rparr>"

text \<open>The message of the certificate authority when the weekly quota is used up.\<close>

definition rate_limit_message :: string where
  "rate_limit_message =
     ''too many certificates (5) already issued for this exact set of domains in the last 168 hours: example.com''
     @ nl"

definition rate_limited_env :: env where
  "rate_limited_env = example_env\<lparr>certbot_popen := Inr rate_limit_message\<rparr>"

definition failed_start_env :: env where
  "failed_start_env = example_env\<lparr>is_active_stdout := ''failed'' @ nl\<rparr>"

text \<open>A download whose first two try blocks raise \<^verbatim>\<open>OSError\<close> and whose third runs through.\<close>

definition two_failures :: "nat \<Rightarrow> attempt" where
  "two_failures i = (if i < 2 then OSErrorIn Extract else Extracted)"

section \<open>Properties\<close>

subsection \<open>Helper facts\<close>

lemma bind_err_simps [simp]:
  "bind_err (Inl e) f = Inl e" "bind_err (Inr v) f = f v"
  by (simp_all add: bind_err_def)

lemma str_of_int_0: "str_of_int 0 = ''0''"
  by (simp add: str_of_int_def str_of_nat.simps digit_char_def)

lemma str_of_int_1: "str_of_int 1 = ''1''"
  by (simp add: str_of_int_def str_of_nat.simps digit_char_def)

lemma sublist_inner: "sublist (a @ x @ b) t \<Longrightarrow> sublist x t"
  unfolding sublist_def by (metis append.assoc)

lemma sublist_alias_variants:
  "list_ex (\<lambda>ck. sublist ck t) alias_variants \<longleftrightarrow> sublist alias_line t"
proof
  assume "list_ex (\<lambda>ck. sublist ck t) alias_variants"
  then show "sublist alias_line t"
    unfolding alias_variants_def
    using sublist_inner[of nl alias_line nl t] sublist_inner[of nl alias_line "[]" t]
      sublist_inner[of "[]" alias_line nl t]
    by auto
next
  assume "sublist alias_line t"
  then show "list_ex (\<lambda>ck. sublist ck t) alias_variants"
    by (simp add: alias_variants_def)
qed

lemma str_values_map: "str_values (map (\<lambda>(u, p). (u, PStr p)) us) = Some us"
  by (induction us) auto

lemma neko_round_trip: "NekoRayConfig_from_json (NekoRayConfig_to_json c) = Inr c"
  by (cases "sni c")
     (simp_all add: NekoRayConfig_from_json_def NekoRayConfig_to_json_def from_dict_to_cls_def
       NekoRayConfig_signature_def NekoRayConfig_dict_def NekoRayConfig_cls_def
       kw_str_def kw_bool_def kw_opt_str_def)

lemma server_new_fixed:
  "prefix '':'' (ServerConfig.listen x) \<Longrightarrow>
   ServerConfig_new (Inr (ServerConfig.listen x)) (certificate x) (private_key x) (users x)
     (ServerConfig.congestion_control x) (ServerConfig.log_level x) = x"
  by (simp add: ServerConfig_new_def)

lemma server_kwargs:
  "from_dict_kwargs ServerConfig_signature (ServerConfig_dict x) =
     Inr [(''listen'', PStr (ServerConfig.listen x)),
          (''certificate'', PStr (certificate x)),
          (''private_key'', PStr (private_key x)),
          (''users'', PDict (map (\<lambda>(u, p). (u, PStr p)) (users x))),
          (''congestion_control'', PStr (ServerConfig.congestion_control x)),
          (''log_level'', PStr (ServerConfig.log_level x))]"
  by (simp add: ServerConfig_signature_def ServerConfig_dict_def)

lemma server_round_trip:
  assumes "prefix '':'' (ServerConfig.listen x)"
  shows "ServerConfig_from_json (ServerConfig_to_json x) = Inr x"
  using server_new_fixed[OF assms]
  by (simp add: ServerConfig_from_json_def ServerConfig_to_json_def from_dict_to_cls_def
      server_kwargs ServerConfig_cls_def kw_str_def kw_listen_def kw_users_def str_values_map)

lemma server_new_listen: "prefix '':'' (ServerConfig.listen (ServerConfig_new l c k us cc ll))"
  by (simp add: ServerConfig_new_def Let_def)

subsection \<open>Configuration round trip\<close>

text \<open>
  Claim C5. Writing a configuration with \<^verbatim>\<open>to_json\<close> and reading the JSON back with
  \<^verbatim>\<open>from_dict_to_cls\<close> gives a value equal in every field: for every client
  configuration, whatever its optional fields hold; for every server configuration whose
  \<^verbatim>\<open>listen\<close> carries the leading colon; and so for every server configuration the
  constructor returns.
\<close>

theorem config_round_trip:
  "NekoRayConfig_from_json (NekoRayConfig_to_json c) = Inr c \<and>
   (prefix '':'' (ServerConfig.listen x) \<longrightarrow>
      ServerConfig_from_json (ServerConfig_to_json x) = Inr x) \<and>
   ServerConfig_from_json (ServerConfig_to_json (ServerConfig_new l ce k us cc ll))
     = Inr (ServerConfig_new l ce k us cc ll)"
  using neko_round_trip server_round_trip server_new_listen by blast

theorem config_round_trip_witness:
  "NekoRayConfig_from_json (NekoRayConfig_to_json
      \<lparr>server = ''1.2.3.4:41999'', listen = ''127.0.0.1:%socks_port%'', uuid = ''u1'',
       password = ''p1'', sni = None, allow_insecure = False, congestion_control = ''bbr'',
       log_level = ''info''\<rparr>)
     = Inr \<lparr>server = ''1.2.3.4:41999'', listen = ''127.0.0.1:%socks_port%'', uuid = ''u1'',
       password = ''p1'', sni = None, allow_insecure = False, congestion_control = ''bbr'',
       log_level = ''info''\<rparr> \<and>
   prefix '':'' (ServerConfig.listen
      \<lparr>ServerConfig.listen = '':8443'', certificate = ''c.pem'', private_key = ''k.pem'', users = [],
       ServerConfig.congestion_control = ''bbr'', ServerConfig.log_level = ''info''\<rparr>) \<and>
   ServerConfig_from_json (ServerConfig_to_json
      \<lparr>ServerConfig.listen = '':8443'', certificate = ''c.pem'', private_key = ''k.pem'', users = [],
       ServerConfig.congestion_control = ''bbr'', ServerConfig.log_level = ''info''\<rparr>)
     = Inr \<lparr>ServerConfig.listen = '':8443'', certificate = ''c.pem'', private_key = ''k.pem'', users = [],
       ServerConfig.congestion_control = ''bbr'', ServerConfig.log_level = ''info''\<rparr>"
proof -
  let ?c = "\<lparr>server = ''1.2.3.4:41999'', listen = ''127.0.0.1:%socks_port%'', uuid = ''u1'',
       password = ''p1'', sni = None, allow_insecure = False, congestion_control = ''bbr'',
       log_level = ''info''\<rparr>"
  let ?x = "\<lparr>ServerConfig.listen = '':8443'', certificate = ''c.pem'', private_key = ''k.pem'',
       users = ([] :: (string \<times> string) list), ServerConfig.congestion_control = ''bbr'',
       ServerConfig.log_level = ''info''\<rparr>"
  have p: "prefix '':'' (ServerConfig.listen ?x)" by simp
  from config_round_trip[of ?c ?x] p show ?thesis by blast
qed

subsection \<open>Share link\<close>

text \<open>
  Claim C7. The share link of every client configuration is
  \<^verbatim>\<open>juicity://<uuid>:<password>@<server>?congestion_control=<cc>&allow_insecure=<0|1>\<close>,
  followed by \<^verbatim>\<open>&sni=<sni>\<close> exactly when \<^verbatim>\<open>sni\<close> is neither \<^verbatim>\<open>None\<close> nor empty; for
  the values of the specification's example it is the link given there.
\<close>

theorem sharelink_grammar:
  "sharelink c =
     ''juicity://'' @ uuid c @ '':'' @ NekoRayConfig.password c @ ''@'' @ server c
     @ ''?congestion_control='' @ NekoRayConfig.congestion_control c
     @ ''&allow_insecure='' @ (if allow_insecure c then ''1'' else ''0'')
     @ (if sni c = None \<or> sni c = Some [] then [] else ''&sni='' @ the (sni c))
   \<and> sharelink \<lparr>server = ''1.2.3.4:41999'', listen = l, uuid = ''u1'', password = ''p1'',
        sni = Some ''example.com'', allow_insecure = False, congestion_control = ''bbr'',
        log_level = ll\<rparr>
     = ''juicity://u1:p1@1.2.3.4:41999?congestion_control=bbr&allow_insecure=0&sni=example.com''"
  by (cases "sni c") (simp_all add: sharelink_def Let_def str_of_int_0 str_of_int_1)

subsection \<open>Alias\<close>

text \<open>
  Claim C10. \<^verbatim>\<open>set_alias\<close> is idempotent on the rc file: calling it twice leaves the
  content that one call leaves, from any start (also when the file does not exist), and a
  content in which the alias line occurs, with or without newlines around it, is left
  unchanged.
\<close>

theorem set_alias_idempotent:
  "set_alias (set_alias rc) = set_alias rc \<and>
   (\<forall>t. sublist alias_line t \<longrightarrow> set_alias (Some t) = Some t)"
proof -
  have a: "sublist alias_line (p @ nl @ alias_line @ nl)" for p
    by (metis sublist_appendI append.assoc)
  show ?thesis
    using a a[of "[]"]
    by (auto simp: set_alias_def sublist_alias_variants split: option.splits)
qed

theorem set_alias_idempotent_witness:
  "sublist alias_line (''export A=1'' @ nl @ alias_line @ nl) \<and>
   set_alias (Some (''export A=1'' @ nl @ alias_line @ nl))
     = Some (''export A=1'' @ nl @ alias_line @ nl) \<and>
   set_alias (set_alias None) = set_alias None"
proof -
  have s: "sublist alias_line (''export A=1'' @ nl @ alias_line @ nl)"
    by (metis sublist_appendI append.assoc)
  from set_alias_idempotent[of None] s show ?thesis by blast
qed

subsection \<open>Deserializing the client configuration\<close>

lemma from_dict_kwargs_agree:
  "(\<forall>k\<in>set (map fst sg). map_of d k = map_of d' k) \<Longrightarrow>
   from_dict_kwargs sg (PDict d) = from_dict_kwargs sg (PDict d')"
proof (induction sg)
  case Nil
  then show ?case by simp
next
  case (Cons a sg)
  obtain key dflt where a: "a = (key, dflt)" by (cases a)
  from Cons.prems a have k: "map_of d key = map_of d' key" by simp
  from Cons have ih: "from_dict_kwargs sg (PDict d) = from_dict_kwargs sg (PDict d')" by simp
  show ?case by (cases dflt) (simp_all add: a k ih)
qed

lemma neko_kwargs_present:
  assumes "map_of d ''server'' = Some sv" "map_of d ''listen'' = Some li"
    "map_of d ''uuid'' = Some uu" "map_of d ''password'' = Some pw"
  shows "from_dict_kwargs NekoRayConfig_signature (PDict d) =
     Inr [(''server'', sv), (''listen'', li), (''uuid'', uu), (''password'', pw),
          (''sni'', case map_of d ''sni'' of None \<Rightarrow> PNone | Some v \<Rightarrow> v),
          (''allow_insecure'', case map_of d ''allow_insecure'' of None \<Rightarrow> PBool False | Some v \<Rightarrow> v),
          (''congestion_control'', case map_of d ''congestion_control'' of None \<Rightarrow> PStr ''bbr'' | Some v \<Rightarrow> v),
          (''log_level'', case map_of d ''log_level'' of None \<Rightarrow> PStr ''info'' | Some v \<Rightarrow> v)]"
  using assms by (simp add: NekoRayConfig_signature_def split: option.splits)

lemma neko_kwargs_missing:
  assumes "find (\<lambda>k. map_of d k = None) [''server'', ''listen'', ''uuid'', ''password''] = Some k"
  shows "from_dict_kwargs NekoRayConfig_signature (PDict d) = Inl (KeyError k)"
  using assms by (auto simp: NekoRayConfig_signature_def split: if_splits)

lemma neko_not_dict:
  assumes "\<forall>d. data \<noteq> PDict d"
  shows "from_dict_kwargs NekoRayConfig_signature data = Inl TypeError"
  using assms by (cases data) (simp_all add: NekoRayConfig_signature_def)

text \<open>
  Claim C6, as the code has it. For a JSON object read as a client configuration: keys
  that name no declared field are ignored (two objects that agree on the eight declared
  keys are read alike); when \<^verbatim>\<open>server\<close>, \<^verbatim>\<open>listen\<close>, \<^verbatim>\<open>uuid\<close> and \<^verbatim>\<open>password\<close> are
  present the constructor receives every present value as it is and, for each of \<^verbatim>\<open>sni\<close>,
  \<^verbatim>\<open>allow_insecure\<close>, \<^verbatim>\<open>congestion_control\<close> and \<^verbatim>\<open>log_level\<close> that is missing, its
  declared default (\<^verbatim>\<open>None\<close>, \<^verbatim>\<open>False\<close>, \<^verbatim>\<open>"bbr"\<close>, \<^verbatim>\<open>"info"\<close>); the four fields without a
  default are required, and reading fails with \<^verbatim>\<open>KeyError\<close> for the first of them that
  is missing. A JSON value that is no object raises \<^verbatim>\<open>TypeError\<close>.
\<close>

theorem client_from_dict_defaults:
  "((\<forall>k\<in>set (map fst NekoRayConfig_signature). map_of d1 k = map_of d1' k) \<longrightarrow>
      NekoRayConfig_from_json (PDict d1) = NekoRayConfig_from_json (PDict d1')) \<and>
   (map_of d2 ''server'' = Some sv \<and> map_of d2 ''listen'' = Some li \<and>
    map_of d2 ''uuid'' = Some uu \<and> map_of d2 ''password'' = Some pw \<longrightarrow>
      from_dict_kwargs NekoRayConfig_signature (PDict d2) =
        Inr [(''server'', sv), (''listen'', li), (''uuid'', uu), (''password'', pw),
             (''sni'', case map_of d2 ''sni'' of None \<Rightarrow> PNone | Some v \<Rightarrow> v),
             (''allow_insecure'',
                case map_of d2 ''allow_insecure'' of None \<Rightarrow> PBool False | Some v \<Rightarrow> v),
             (''congestion_control'',
                case map_of d2 ''congestion_control'' of None \<Rightarrow> PStr ''bbr'' | Some v \<Rightarrow> v),
             (''log_level'',
                case map_of d2 ''log_level'' of None \<Rightarrow> PStr ''info'' | Some v \<Rightarrow> v)]) \<and>
   (find (\<lambda>k. map_of d3 k = None) [''server'', ''listen'', ''uuid'', ''password''] = Some k \<longrightarrow>
      NekoRayConfig_from_json (PDict d3) = Inl (KeyError k)) \<and>
   ((\<forall>d. data \<noteq> PDict d) \<longrightarrow> NekoRayConfig_from_json data = Inl TypeError)"
  using from_dict_kwargs_agree[of NekoRayConfig_signature d1 d1']
    neko_kwargs_present[of d2 sv li uu pw] neko_kwargs_missing[of d3 k] neko_not_dict[of data]
  by (simp add: NekoRayConfig_from_json_def from_dict_to_cls_def)

theorem client_from_dict_defaults_witness:
  "map_of [(''server'', PStr ''1.2.3.4:41999''), (''listen'', PStr ''127.0.0.1:1080''),
           (''uuid'', PStr ''u1''), (''password'', PStr ''p1''), (''remark'', PInt 7)] ''remark''
     = Some (PInt 7) \<and>
   NekoRayConfig_from_json
     (PDict [(''server'', PStr ''1.2.3.4:41999''), (''listen'', PStr ''127.0.0.1:1080''),
             (''uuid'', PStr ''u1''), (''password'', PStr ''p1''), (''remark'', PInt 7)])
   = NekoRayConfig_from_json
     (PDict [(''server'', PStr ''1.2.3.4:41999''), (''listen'', PStr ''127.0.0.1:1080''),
             (''uuid'', PStr ''u1''), (''password'', PStr ''p1'')]) \<and>
   from_dict_kwargs NekoRayConfig_signature
     (PDict [(''server'', PStr ''1.2.3.4:41999''), (''listen'', PStr ''127.0.0.1:1080''),
             (''uuid'', PStr ''u1''), (''password'', PStr ''p1'')])
   = Inr [(''server'', PStr ''1.2.3.4:41999''), (''listen'', PStr ''127.0.0.1:1080''),
          (''uuid'', PStr ''u1''), (''password'', PStr ''p1''), (''sni'', PNone),
          (''allow_insecure'', PBool False), (''congestion_control'', PStr ''bbr''),
          (''log_level'', PStr ''info'')] \<and>
   NekoRayConfig_from_json (PDict [(''server'', PStr ''1.2.3.4:41999''), (''uuid'', PStr ''u1'')])
   = Inl (KeyError ''listen'') \<and>
   NekoRayConfig_from_json (PList []) = Inl TypeError"
proof -
  let ?full = "[(''server'', PStr ''1.2.3.4:41999''), (''listen'', PStr ''127.0.0.1:1080''),
             (''uuid'', PStr ''u1''), (''password'', PStr ''p1'')]"
  let ?more = "?full @ [(''remark'', PInt 7)]"
  let ?less = "[(''server'', PStr ''1.2.3.4:41999''), (''uuid'', PStr ''u1'')]"
  have a: "\<forall>k\<in>set (map fst NekoRayConfig_signature). map_of ?more k = map_of ?full k"
    by (simp add: NekoRayConfig_signature_def)
  have b: "map_of ?full ''server'' = Some (PStr ''1.2.3.4:41999'') \<and>
           map_of ?full ''listen'' = Some (PStr ''127.0.0.1:1080'') \<and>
           map_of ?full ''uuid'' = Some (PStr ''u1'') \<and>
           map_of ?full ''password'' = Some (PStr ''p1'')" by simp
  have c: "find (\<lambda>k. map_of ?less k = None) [''server'', ''listen'', ''uuid'', ''password'']
           = Some ''listen''" by simp
  have d: "\<forall>d. PList [] \<noteq> PDict d" by simp
  from client_from_dict_defaults[of ?more ?full ?full "PStr ''1.2.3.4:41999''"
      "PStr ''127.0.0.1:1080''" "PStr ''u1''" "PStr ''p1''" ?less "''listen''" "PList []"]
    a b c d
  show ?thesis by simp
qed

text \<open>
  The claim as the specification states it (every missing field takes a default and
  reading succeeds) fails for the object \<^verbatim>\<open>{"sni": "example.com"}\<close>.
\<close>

theorem client_from_dict_counterexample:
  "NekoRayConfig_from_json (PDict [(''sni'', PStr ''example.com'')]) = Inl (KeyError ''server'')"
  by (simp add: NekoRayConfig_from_json_def from_dict_to_cls_def NekoRayConfig_signature_def)

subsection \<open>Facts about ports, hooks and stripping\<close>

lemma in_port_range: "p \<in> set port_range \<longleftrightarrow> 41670 \<le> p \<and> p < 46990"
proof -
  have "set port_range = int ` {41670..<46990}"
    unfolding port_range_def set_map set_upt ..
  moreover have "p \<in> int ` {41670..<46990} \<longleftrightarrow> 41670 \<le> p \<and> p < 46990"
  proof
    assume "p \<in> int ` {41670..<46990}"
    then obtain n where "p = int n" "41670 \<le> n" "n < 46990" by auto
    then show "41670 \<le> p \<and> p < 46990" by simp
  next
    assume a: "41670 \<le> p \<and> p < 46990"
    have 1: "p = int (nat p)" using a by simp
    have 2: "41670 \<le> nat p" using a by linarith
    have 3: "nat p < 46990" using a by linarith
    from 1 2 3 show "p \<in> int ` {41670..<46990}" by (metis atLeastLessThan_iff imageI)
  qed
  ultimately show ?thesis by simp
qed

lemma post_hook_events:
  "fst (cert_post_hook cb) =
     (if should_revive_port_80 cb then [System restart_nginx_cmd] else [])
     @ (if is_success cb then [System enable_timer_cmd] else [])"
  by (simp add: cert_post_hook_def Let_def)

lemma post_hook_outcome:
  "fst (snd (cert_post_hook cb)) = (if is_success cb then Returned else Exited)"
  by (simp add: cert_post_hook_def Let_def)


text \<open>\<^const>\<open>strip\<close> keeps a phrase that neither starts nor ends with whitespace.\<close>

lemma dropWhile_keeps:
  assumes "p \<noteq> []" "\<not> P (hd p)"
  shows "\<exists>a'. dropWhile P (a @ p @ b) = a' @ p @ b"
proof (induction a)
  case Nil
  from assms obtain x xs where "p = x # xs" "\<not> P x" by (cases p) auto
  then show ?case by (intro exI[of _ "[]"]) simp
next
  case (Cons c a)
  then obtain a' where a': "dropWhile P (a @ p @ b) = a' @ p @ b" by blast
  show ?case
  proof (cases "P c")
    case True
    then show ?thesis using a' by auto
  next
    case False
    then show ?thesis by (intro exI[of _ "c # a"]) simp
  qed
qed

lemma sublist_dropWhile_keeps:
  assumes "sublist p s" "p \<noteq> []" "\<not> P (hd p)"
  shows "sublist p (dropWhile P s)"
proof -
  from assms(1) obtain a b where "s = a @ p @ b" by (auto simp: sublist_def)
  with dropWhile_keeps[of p P a b] assms(2,3) show ?thesis by (auto simp: sublist_def)
qed

lemma sublist_strip:
  assumes "sublist p s" "p \<noteq> []" "\<not> is_space (hd p)" "\<not> is_space (last p)"
  shows "sublist p (strip s)"
proof -
  have 1: "sublist p (dropWhile is_space s)"
    using sublist_dropWhile_keeps[of p s is_space] assms(1-3) by blast
  then have "sublist (rev p) (rev (dropWhile is_space s))" by simp
  moreover have "rev p \<noteq> []" using assms(2) by simp
  moreover have "\<not> is_space (hd (rev p))" using assms(2,4) by (simp add: hd_rev)
  ultimately have "sublist (rev p) (dropWhile is_space (rev (dropWhile is_space s)))"
    using sublist_dropWhile_keeps[of "rev p" "rev (dropWhile is_space s)" is_space] by blast
  then have "sublist (rev (rev p)) (rev (dropWhile is_space (rev (dropWhile is_space s))))"
    by (simp only: sublist_rev)
  then show ?thesis by (simp add: strip_def)
qed

lemma sublist_strip_back: "sublist p (strip s) \<Longrightarrow> sublist p s"
proof -
  assume a: "sublist p (strip s)"
  have "sublist (dropWhile is_space (rev (dropWhile is_space s))) (rev (dropWhile is_space s))"
    by simp
  then have "sublist (strip s) (dropWhile is_space s)"
    unfolding strip_def by (metis rev_rev_ident sublist_rev)
  moreover have "sublist (dropWhile is_space s) s" by simp
  ultimately show ?thesis using a by (meson sublist_order.order_trans)
qed

lemma rate_limited_iff:
  "(strip s \<noteq> [] \<and> sublist ''168 hours'' (strip s)) \<longleftrightarrow> sublist ''168 hours'' s"
proof
  assume "strip s \<noteq> [] \<and> sublist ''168 hours'' (strip s)"
  then show "sublist ''168 hours'' s" by (simp add: sublist_strip_back)
next
  assume a: "sublist ''168 hours'' s"
  have "sublist ''168 hours'' (strip s)"
    by (rule sublist_strip[OF a]) (simp_all add: is_space_def)
  moreover then have "strip s \<noteq> []" by auto
  ultimately show "strip s \<noteq> [] \<and> sublist ''168 hours'' (strip s)" by simp
qed

subsection \<open>Port allocation\<close>

lemma find_all_used: "find (\<lambda>p. \<not> is_port_in_used (\<lambda>pr p. False) p Udp) xs = None"
  by (induction xs) (simp_all add: is_port_in_used_def)

lemma server_port_found:
  assumes "server_port rand_ports bk pr = (p, pr')" "p_server_port pr < 0" "0 \<le> p"
  shows "p \<in> set rand_ports \<and> bk Udp p \<and> p_server_port pr' = p"
  using assms
  by (auto simp: server_port_def is_port_in_used_def find_Some_iff split: option.splits if_splits)

lemma server_port_in_range:
  assumes "server_port rand_ports bk pr = (p, pr')" "p_server_port pr < 0" "0 \<le> p"
    "set rand_ports = set port_range"
  shows "41670 \<le> p \<and> p < 46990 \<and> bk Udp p"
  using server_port_found[OF assms(1-3)] assms(4) in_port_range[of p] by simp

text \<open>
  Claim C2 says that the allocator returns a port of the range that was found unbound,
  or fails for good when every candidate is bound. The first half holds
  (\<open>server_port_in_range\<close>). On a machine where every candidate is bound the loop ends
  without a \<^verbatim>\<open>break\<close> and the property returns \<^verbatim>\<open>self._server_port\<close>, still \<open>-1\<close>: a
  value outside the range, and no failure.
\<close>

theorem server_port_exhausted:
  "server_port port_range (\<lambda>pr p. False) Project_new = (- 1, Project_new)"
  by (simp add: server_port_def Project_new_def find_all_used)

subsection \<open>Certificate hooks\<close>


lemma pre_hook_success:
  "is_success (snd (cert_pre_hook e (CertBot_new dmn)))"
  by (simp add: cert_pre_hook_def CertBot_new_def Let_def)





lemma u_run_started:
  assumes "certbot_popen e = Inr s"
  shows "CertBot_u_run e cb =
     ([Popen (certbot_cmd (cb_domain cb))], None,
      if sublist ''168 hours'' s then cb\<lparr>is_success := False\<rparr> else cb)"
  using assms rate_limited_iff[of s] by (auto simp: CertBot_u_run_def Let_def)

lemma u_run_raised:
  assumes "certbot_popen e = Inl err"
  shows "CertBot_u_run e cb = ([Popen (certbot_cmd (cb_domain cb))], Some err, cb)"
  using assms by (simp add: CertBot_u_run_def)

lemma CertBot_run_started:
  assumes "certbot_popen e = Inr s"
  shows "CertBot_run e cb =
     (fst (cert_pre_hook e cb) @ [Popen (certbot_cmd (cb_domain (snd (cert_pre_hook e cb))))]
        @ fst (cert_post_hook (if sublist ''168 hours'' s
                               then (snd (cert_pre_hook e cb))\<lparr>is_success := False\<rparr>
                               else snd (cert_pre_hook e cb))),
      snd (cert_post_hook (if sublist ''168 hours'' s
                           then (snd (cert_pre_hook e cb))\<lparr>is_success := False\<rparr>
                           else snd (cert_pre_hook e cb))))"
  by (simp add: CertBot_run_def u_run_started[OF assms] split: prod.splits)

lemma CertBot_run_raised:
  assumes "certbot_popen e = Inl err"
  shows "CertBot_run e cb =
     (fst (cert_pre_hook e cb) @ [Popen (certbot_cmd (cb_domain (snd (cert_pre_hook e cb))))],
      Raised err, snd (cert_pre_hook e cb))"
  by (simp add: CertBot_run_def u_run_raised[OF assms] split: prod.splits)




subsection \<open>Download\<close>

lemma try_events_counts:
  "count_list (try_events st) (Urlretrieve URL zip_path) = 1"
  "count_list (try_events st) (System stop_cmd) = 0"
  by (cases st; simp add: try_events_def)+

lemma chmod_not_stop: "chmod_cmd \<noteq> stop_cmd"
  by (simp add: chmod_cmd_def stop_cmd_def)

lemma download_server_retries:
  assumes "\<forall>j<n. \<exists>st. att (i + j) = OSErrorIn st" "att (i + n) = Extracted" "n < frames"
  shows "snd (download_server frames att i) = Returned \<and>
         count_list (fst (download_server frames att i)) (System stop_cmd) = n \<and>
         count_list (fst (download_server frames att i)) (Urlretrieve URL zip_path) = Suc n"
  using assms
proof (induction n arbitrary: i frames)
  case 0
  then obtain f where f: "frames = Suc f" by (cases frames) auto
  from 0 have "att i = Extracted" by simp
  then show ?case by (simp add: f try_events_counts chmod_not_stop)
next
  case (Suc n)
  from Suc.prems(3) obtain f where f: "frames = Suc f" and nf: "n < f" by (cases frames) auto
  from Suc.prems(1) obtain st where st: "att i = OSErrorIn st"
    by (metis add.right_neutral zero_less_Suc)
  have a: "\<forall>j<n. \<exists>st. att (Suc i + j) = OSErrorIn st"
    using Suc.prems(1) by (metis Suc_less_eq add_Suc_right add_Suc)
  have b: "att (Suc i + n) = Extracted" using Suc.prems(2) by simp
  from Suc.IH[OF a b nf] show ?case by (simp add: f st Let_def try_events_counts)
qed

lemma download_server_exhausts:
  assumes "\<forall>j<frames. \<exists>st. att (i + j) = OSErrorIn st"
  shows "snd (download_server frames att i) = Raised RecursionError \<and>
         count_list (fst (download_server frames att i)) (System stop_cmd) = frames"
  using assms
proof (induction frames arbitrary: i)
  case 0
  then show ?case by (simp add: try_events_counts)
next
  case (Suc f)
  from Suc.prems obtain st where st: "att i = OSErrorIn st"
    by (metis add.right_neutral zero_less_Suc)
  have a: "\<forall>j<f. \<exists>st. att (Suc i + j) = OSErrorIn st"
    using Suc.prems by (metis Suc_less_eq add_Suc_right add_Suc)
  from Suc.IH[OF a] show ?case by (simp add: st Let_def try_events_counts)
qed

lemma download_server_stops_le:
  "count_list (fst (download_server frames att i)) (System stop_cmd) \<le> frames"
proof (induction frames arbitrary: i)
  case 0
  then show ?case by (simp add: try_events_counts)
next
  case (Suc f)
  show ?case
  proof (cases "att i")
    case Extracted
    then show ?thesis by (simp add: try_events_counts chmod_not_stop)
  next
    case (OSErrorIn st)
    with Suc.IH[of "Suc i"] show ?thesis by (simp add: Let_def try_events_counts)
  next
    case (OtherErrorIn st err)
    then show ?thesis by (simp add: try_events_counts)
  qed
qed

text \<open>
  Claim C4, as the code has it. After every try block that ends in \<^verbatim>\<open>OSError\<close> the
  service is stopped and the whole download is tried again, not once only: when the
  first \<open>n\<close> try blocks raise \<^verbatim>\<open>OSError\<close>, the next one runs through and the stack admits
  them, \<^verbatim>\<open>download_server\<close> returns after stopping the service \<open>n\<close> times and fetching
  \<open>n + 1\<close> times. The source has no bound of its own; the retries end with the
  interpreter's stack: when every try block the stack admits raises \<^verbatim>\<open>OSError\<close>, the
  method ends with an uncaught \<^verbatim>\<open>RecursionError\<close> after stopping the service once per
  activation, and under the recursion limit of 1000 that is at most 1000 times.
\<close>

theorem download_server_retries_to_the_limit:
  "((\<forall>j<n. \<exists>st. att j = OSErrorIn st) \<and> att n = Extracted \<and> n < frames \<longrightarrow>
      snd (download_server frames att 0) = Returned \<and>
      count_list (fst (download_server frames att 0)) (System stop_cmd) = n \<and>
      count_list (fst (download_server frames att 0)) (Urlretrieve URL zip_path) = Suc n) \<and>
   ((\<forall>j<frames'. \<exists>st. att' j = OSErrorIn st) \<longrightarrow>
      snd (download_server frames' att' 0) = Raised RecursionError \<and>
      count_list (fst (download_server frames' att' 0)) (System stop_cmd) = frames') \<and>
   count_list (fst (download_server (recursion_limit - d) a 0)) (System stop_cmd) \<le> 1000"
proof -
  have "count_list (fst (download_server (recursion_limit - d) a 0)) (System stop_cmd)
          \<le> recursion_limit - d"
    by (rule download_server_stops_le)
  then have 3: "count_list (fst (download_server (recursion_limit - d) a 0)) (System stop_cmd)
          \<le> 1000"
    by (simp add: recursion_limit_def)
  from download_server_retries[of n att 0 frames] download_server_exhausts[of frames' att' 0] 3
  show ?thesis by simp
qed

theorem download_server_retries_to_the_limit_witness:
  "two_failures 0 = OSErrorIn Extract \<and> two_failures 1 = OSErrorIn Extract \<and>
   two_failures 2 = Extracted \<and> (2 :: nat) < 980 \<and>
   snd (download_server 980 two_failures 0) = Returned \<and>
   count_list (fst (download_server 980 two_failures 0)) (System stop_cmd) = 2 \<and>
   count_list (fst (download_server 980 two_failures 0)) (Urlretrieve URL zip_path) = 3 \<and>
   snd (download_server 980 (\<lambda>i. OSErrorIn Extract) 0) = Raised RecursionError \<and>
   count_list (fst (download_server 980 (\<lambda>i. OSErrorIn Extract) 0)) (System stop_cmd) = 980"
proof -
  have a: "(\<forall>j<2. \<exists>st. two_failures j = OSErrorIn st) \<and> two_failures 2 = Extracted \<and>
           (2 :: nat) < 980"
    by (simp add: two_failures_def)
  have b: "\<forall>j<980. \<exists>st. (\<lambda>i. OSErrorIn Extract) j = OSErrorIn st" by simp
  have c: "two_failures 0 = OSErrorIn Extract \<and> two_failures 1 = OSErrorIn Extract"
    by (simp add: two_failures_def)
  from download_server_retries_to_the_limit[of 2 two_failures 980 980 "\<lambda>i. OSErrorIn Extract"]
    a b c
  show ?thesis by simp
qed

text \<open>
  The claim as the specification states it (the download is retried exactly once) fails:
  after two failures the service is stopped twice and the download is fetched three
  times.
\<close>

theorem download_server_twice_counterexample:
  "snd (download_server 980 two_failures 0) = Returned \<and>
   count_list (fst (download_server 980 two_failures 0)) (System stop_cmd) = 2 \<and>
   count_list (fst (download_server 980 two_failures 0)) (Urlretrieve URL zip_path) = 3"
proof -
  have "\<forall>j<2. \<exists>st. two_failures (0 + j) = OSErrorIn st" by (simp add: two_failures_def)
  moreover have "two_failures (0 + 2) = Extracted" by (simp add: two_failures_def)
  moreover have "(2 :: nat) < 980" by simp
  ultimately show ?thesis using download_server_retries[of 2 two_failures 0 980] by simp
qed

subsection \<open>check and the file system\<close>

lemma mkdir_effect:
  "mkdir parent path f = Inr g \<Longrightarrow> f path = None \<and> g = f(path \<mapsto> Dir)"
  by (auto simp: mkdir_def lookup_path_def split: option.splits node.splits if_splits)

lemma makedirs_effect:
  assumes "fst (makedirs head name f) p \<noteq> f p"
  shows "(p = head \<or> p = name) \<and> f p = None \<and> fst (makedirs head name f) p = Some Dir"
proof -
  define f1 where "f1 = (if lookup_path f head = None
                then (case mkdir ''/'' head f of Inr g \<Rightarrow> g | Inl err \<Rightarrow> f) else f)"
  have f1: "f1 = f \<or> (f head = None \<and> f1 = f(head \<mapsto> Dir))"
    unfolding f1_def using mkdir_effect[of "''/''" head f] by (auto split: sum.splits)
  have m: "fst (makedirs head name f) = f1 \<or>
           (f1 name = None \<and> fst (makedirs head name f) = f1(name \<mapsto> Dir))"
    using mkdir_effect[of head name f1]
    by (auto simp: makedirs_def Let_def f1_def[symmetric] split: sum.splits)
  from f1 m assms show ?thesis by (auto split: if_splits)
qed

lemma makedirs_present:
  assumes "f head = Some Dir" "f name = Some Dir"
  shows "makedirs head name f = (f, None)"
  using assms by (auto simp: makedirs_def mkdir_def lookup_path_def Let_def split: if_splits)

lemma check_fs: "fst (check f ps) = fst (Project_post_init f)"
  by (simp add: check_def split: prod.splits option.splits)

text \<open>
  Claim C9, as the code has it. \<^verbatim>\<open>check\<close> writes, changes and removes no file. Making the
  \<^verbatim>\<open>Project\<close> ensures that the workstation directory exists: the only change \<^verbatim>\<open>check\<close>
  can make to the file system is to create the directory \<^verbatim>\<open>/home/juicity\<close> (and its parent
  \<^verbatim>\<open>/home\<close>) where nothing was; when the workstation directory is there already, the file
  system is left as it was.
\<close>

theorem check_only_makes_workstation:
  "(\<forall>p. fst (check f ps) p \<noteq> f p \<longrightarrow>
        (p = ''/home'' \<or> p = workstation) \<and> f p = None \<and> fst (check f ps) p = Some Dir) \<and>
   (g ''/home'' = Some Dir \<and> g workstation = Some Dir \<longrightarrow> fst (check g ps) = g)"
  using makedirs_effect[of "''/home''" workstation f] makedirs_present[of g "''/home''" workstation]
  by (auto simp: check_fs Project_post_init_def)

theorem check_only_makes_workstation_witness:
  "fst (check (\<lambda>p. None) example_params) workstation \<noteq> (\<lambda>p. None) workstation \<and>
   fst (check (\<lambda>p. None) example_params) workstation = Some Dir \<and>
   (\<lambda>p. if p = ''/home'' \<or> p = workstation then Some Dir else None) ''/home'' = Some Dir \<and>
   (\<lambda>p. if p = ''/home'' \<or> p = workstation then Some Dir else None) workstation = Some Dir \<and>
   fst (check (\<lambda>p. if p = ''/home'' \<or> p = workstation then Some Dir else None) example_params)
     = (\<lambda>p. if p = ''/home'' \<or> p = workstation then Some Dir else None)"
proof -
  let ?g = "\<lambda>p. if p = ''/home'' \<or> p = workstation then Some Dir else None"
  have a: "fst (check (\<lambda>p. None) example_params) workstation \<noteq> (\<lambda>p. None) workstation"
    by (simp add: check_fs Project_post_init_def makedirs_def mkdir_def lookup_path_def
        workstation_def)
  have b: "?g ''/home'' = Some Dir \<and> ?g workstation = Some Dir" by simp
  from check_only_makes_workstation[of "\<lambda>p. None" example_params ?g] a b
  show ?thesis by blast
qed

text \<open>
  The claim as the specification states it (no directory is created, the workstation
  directory included) fails on a machine without the workstation directory.
\<close>

theorem check_creates_workstation_counterexample:
  "fst (check (\<lambda>p. None) example_params) \<noteq> (\<lambda>p. None) \<and>
   (\<lambda>p. None :: node option) workstation = None \<and>
   fst (check (\<lambda>p. None) example_params) workstation = Some Dir"
proof -
  have a: "fst (check (\<lambda>p. None) example_params) workstation = Some Dir"
    by (simp add: check_fs Project_post_init_def makedirs_def mkdir_def lookup_path_def
        workstation_def)
  then have "fst (check (\<lambda>p. None) example_params) \<noteq> (\<lambda>p. None)"
    by (metis option.distinct(1))
  with a show ?thesis by simp
qed

subsection \<open>install: the rate limit\<close>

lemma CertBot_run_outcome:
  "fst (snd (CertBot_run e (CertBot_new dmn))) =
     (case certbot_popen e of
        Inl err \<Rightarrow> Raised err
      | Inr s \<Rightarrow> if sublist ''168 hours'' s then Exited else Returned)"
proof (cases "certbot_popen e")
  case (Inl err)
  then show ?thesis by (simp add: CertBot_run_raised)
next
  case (Inr s)
  then show ?thesis
    using pre_hook_success[of e dmn] by (simp add: CertBot_run_started post_hook_outcome)
qed

lemma CertBot_run_events:
  assumes "ev \<in> set (fst (CertBot_run e cb))"
  shows "(\<exists>p. ev = RmTree p) \<or> (\<exists>c. ev = Popen c) \<or>
         ev \<in> {System ''apt update -y > /dev/null 2>&1 '',
               System ''apt install certbot -y > /dev/null 2>&1'',
               System stop_nginx_cmd, System kill_port_80_cmd,
               System restart_nginx_cmd, System enable_timer_cmd}"
proof -
  have pre: "ev \<in> set (fst (cert_pre_hook e cb)) \<Longrightarrow> ?thesis"
    by (auto simp: cert_pre_hook_def Let_def split: if_splits)
  have post: "ev \<in> set (fst (cert_post_hook c)) \<Longrightarrow> ?thesis" for c
    by (auto simp: post_hook_events split: if_splits)
  show ?thesis
  proof (cases "certbot_popen e")
    case (Inl err)
    with assms pre show ?thesis by (auto simp: CertBot_run_raised)
  next
    case (Inr s)
    with assms pre post show ?thesis by (auto simp: CertBot_run_started split: if_splits)
  qed
qed

lemma cert_cmds_not_service:
  "c \<in> {''apt update -y > /dev/null 2>&1 '', ''apt install certbot -y > /dev/null 2>&1'',
        stop_nginx_cmd, kill_port_80_cmd, restart_nginx_cmd, enable_timer_cmd}
   \<Longrightarrow> c \<noteq> start_cmd \<and> c \<noteq> ''systemctl daemon-reload''"
  by (auto simp: stop_nginx_cmd_def kill_port_80_cmd_def restart_nginx_cmd_def
      enable_timer_cmd_def start_cmd_def)

lemma CertBot_run_no_mutation:
  "WriteText p c \<notin> set (fst (CertBot_run e cb))"
  "MakeDirs p \<notin> set (fst (CertBot_run e cb))"
  "AppendText p t \<notin> set (fst (CertBot_run e cb))"
  "PrintShareLink l \<notin> set (fst (CertBot_run e cb))"
  "PrintNekoRay a b v \<notin> set (fst (CertBot_run e cb))"
  "System start_cmd \<notin> set (fst (CertBot_run e cb))"
  "System ''systemctl daemon-reload'' \<notin> set (fst (CertBot_run e cb))"
  using CertBot_run_events[of _ e cb] cert_cmds_not_service
  by (blast, blast, blast, blast, blast, fastforce, fastforce)

lemma stderr_phrase:
  assumes "sublist ''168 hours'' (certbot_stderr e)"
  shows "\<exists>s. certbot_popen e = Inr s \<and> sublist ''168 hours'' s"
  using assms by (cases "certbot_popen e") (simp_all add: certbot_stderr_def)

lemma install_rate_limited:
  assumes "validate_domain e (domain ps) = Some (dmn, ip)"
    and "\<not> path_exists e (fullchain dmn)"
    and "sublist ''168 hours'' (certbot_stderr e)"
  shows "install e ps = (fst (CertBot_run e (CertBot_new dmn)), Exited)"
proof -
  obtain ev out cb where r: "CertBot_run e (CertBot_new dmn) = (ev, out, cb)"
    by (cases "CertBot_run e (CertBot_new dmn)") auto
  from stderr_phrase[OF assms(3)] obtain s where
    s: "certbot_popen e = Inr s" "sublist ''168 hours'' s" by blast
  from CertBot_run_outcome[of e dmn] s r have "out = Exited" by simp
  with r assms(1,2) show ?thesis by (simp add: install_def)
qed

text \<open>
  Claim C1. When \<^verbatim>\<open>install\<close> requests a certificate (the domain passed validation and no
  full chain is on disk) and the client's standard error contains "168 hours", the
  command ends with \<^verbatim>\<open>sys.exit()\<close> in the post-hook: up to then no file at all has been
  written (neither the server configuration nor the service unit), the supervisor has
  not been reloaded for a unit, and the service has not been started.
\<close>

theorem rate_limit_short_circuit:
  assumes "validate_domain e (domain ps) = Some (dmn, ip)"
    and "\<not> path_exists e (fullchain dmn)"
    and "sublist ''168 hours'' (certbot_stderr e)"
  shows "\<exists>evs. install e ps = (evs, Exited) \<and>
           (\<forall>p c. WriteText p c \<notin> set evs) \<and>
           System ''systemctl daemon-reload'' \<notin> set evs \<and>
           System start_cmd \<notin> set evs"
  using install_rate_limited[OF assms] CertBot_run_no_mutation(1,6,7)
  by (intro exI[of _ "fst (CertBot_run e (CertBot_new dmn))"]) simp

lemma rate_limit_message_phrase: "sublist ''168 hours'' rate_limit_message"
proof -
  have "rate_limit_message =
      ''too many certificates (5) already issued for this exact set of domains in the last ''
      @ ''168 hours'' @ ('': example.com'' @ nl)"
    by (simp add: rate_limit_message_def)
  then show ?thesis by (metis sublist_appendI)
qed

theorem rate_limit_short_circuit_witness:
  "validate_domain rate_limited_env (domain example_params) = Some (''example.com'', ''1.2.3.4'') \<and>
   \<not> path_exists rate_limited_env (fullchain ''example.com'') \<and>
   sublist ''168 hours'' (certbot_stderr rate_limited_env) \<and>
   (\<exists>evs. install rate_limited_env example_params = (evs, Exited) \<and>
          (\<forall>p c. WriteText p c \<notin> set evs) \<and>
          System ''systemctl daemon-reload'' \<notin> set evs \<and>
          System start_cmd \<notin> set evs)"
proof -
  have a: "validate_domain rate_limited_env (domain example_params)
             = Some (''example.com'', ''1.2.3.4'')"
    by (simp add: validate_domain_def rate_limited_env_def example_env_def example_params_def)
  have b: "\<not> path_exists rate_limited_env (fullchain ''example.com'')"
    by (simp add: rate_limited_env_def example_env_def)
  have c: "sublist ''168 hours'' (certbot_stderr rate_limited_env)"
    by (simp add: rate_limited_env_def certbot_stderr_def rate_limit_message_phrase)
  from rate_limit_short_circuit[OF a b c] a b c show ?thesis by blast
qed

subsection \<open>install: a service that did not start\<close>

lemma download_server_events:
  "set (fst (download_server frames att i)) \<subseteq>
     {Urlretrieve URL zip_path, ExtractAll zip_path workstation,
      System chmod_cmd, System stop_cmd, Sleep}"
proof (induction frames arbitrary: i)
  case 0
  then show ?case by (simp add: try_events_def)
next
  case (Suc f)
  have te: "set (try_events st) \<subseteq> {Urlretrieve URL zip_path, ExtractAll zip_path workstation}" for st
    by (cases st) (simp_all add: try_events_def)
  show ?case
  proof (cases "att i")
    case Extracted
    with te[of Extract] show ?thesis by auto
  next
    case (OSErrorIn st)
    with Suc.IH[of "Suc i"] te[of st] show ?thesis by (auto simp: Let_def)
  next
    case (OtherErrorIn st err)
    with te[of st] show ?thesis by auto
  qed
qed

lemma paths_distinct:
  "service_path \<noteq> client_nekoray_config"
  "server_config \<noteq> client_nekoray_config"
  by (simp_all add: service_path_def client_nekoray_config_def server_config_def workstation_def)

lemma install_prepare_events:
  "set (fst (install_prepare e ip)) \<subseteq>
     {MakeDirs workstation, AppendText path_bash_aliases (nl @ alias_line @ nl),
      WriteText service_path (Text systemd_template), System ''systemctl daemon-reload''}"
  by (auto simp: install_prepare_def build_from_template_def Let_def split: prod.splits if_splits)

lemma install_deploy_inactive:
  assumes "fst (status (is_active_stdout e)) \<noteq> Some True"
  shows "install_deploy e ps pr dmn user port =
     ([WriteText server_config
         (JsonDoc (ServerConfig_to_json (from_automation [user] (fullchain dmn) (privkey dmn) port))),
       System start_cmd, Run ''systemctl is-active juicity''], Returned)"
  using assms by (cases "status (is_active_stdout e)") (auto simp: install_deploy_def Let_def)

lemma install_unfold:
  assumes "validate_domain e (domain ps) = Some (dmn, ip)"
  shows "install e ps =
     (let cert = (if \<not> path_exists e (fullchain dmn)
                  then (fst (CertBot_run e (CertBot_new dmn)),
                        fst (snd (CertBot_run e (CertBot_new dmn))))
                  else ([], Returned));
          prep = install_prepare e ip;
          dl = download_server (recursion_limit - stack_depth e) (attempts e) 0;
          dep = install_deploy e ps (snd (snd prep)) dmn (gen_user e) (fst (snd prep))
      in if snd cert \<noteq> Returned then cert
         else if snd dl \<noteq> Returned then (fst cert @ fst prep @ fst dl, snd dl)
         else (fst cert @ fst prep @ fst dl @ fst dep, snd dep))"
  using assms by (simp add: install_def Let_def split_def cong: if_cong)

lemma install_inactive_events:
  assumes "install e ps = (evs, out)" "fst (status (is_active_stdout e)) \<noteq> Some True"
    and "ev \<in> set evs"
  shows "(\<exists>dmn. ev \<in> set (fst (CertBot_run e (CertBot_new dmn)))) \<or>
         (\<exists>ip. ev \<in> set (fst (install_prepare e ip))) \<or>
         ev \<in> {Urlretrieve URL zip_path, ExtractAll zip_path workstation,
               System chmod_cmd, System stop_cmd, Sleep} \<or>
         (\<exists>c. ev = WriteText server_config c) \<or> ev = System start_cmd \<or>
         ev = Run ''systemctl is-active juicity''"
proof (cases "validate_domain e (domain ps)")
  case None
  with assms(1,3) show ?thesis by (simp add: install_def)
next
  case (Some di)
  obtain dmn ip where di: "di = (dmn, ip)" by (cases di)
  have v: "validate_domain e (domain ps) = Some (dmn, ip)" using Some di by simp
  define cert where "cert = (if \<not> path_exists e (fullchain dmn)
                  then (fst (CertBot_run e (CertBot_new dmn)),
                        fst (snd (CertBot_run e (CertBot_new dmn))))
                  else ([], Returned))"
  define prep where "prep = install_prepare e ip"
  define dl where "dl = download_server (recursion_limit - stack_depth e) (attempts e) 0"
  define dep where "dep = install_deploy e ps (snd (snd prep)) dmn (gen_user e) (fst (snd prep))"
  have cert_evs: "set (fst cert) \<subseteq> set (fst (CertBot_run e (CertBot_new dmn)))"
    by (auto simp: cert_def)
  have dl_evs: "set (fst dl) \<subseteq> {Urlretrieve URL zip_path, ExtractAll zip_path workstation,
           System chmod_cmd, System stop_cmd, Sleep}"
    unfolding dl_def by (rule download_server_events)
  have dep_evs: "set (fst dep) \<subseteq>
          {WriteText server_config (JsonDoc (ServerConfig_to_json
              (from_automation [gen_user e] (fullchain dmn) (privkey dmn) (fst (snd prep))))),
           System start_cmd, Run ''systemctl is-active juicity''}"
    unfolding dep_def by (simp add: install_deploy_inactive[OF assms(2)])
  have inst: "install e ps =
      (if snd cert \<noteq> Returned then cert
       else if snd dl \<noteq> Returned then (fst cert @ fst prep @ fst dl, snd dl)
       else (fst cert @ fst prep @ fst dl @ fst dep, snd dep))"
    using install_unfold[OF v] unfolding cert_def prep_def dl_def dep_def Let_def .
  have "evs = fst (install e ps)" using assms(1) by simp
  then have "evs = fst (if snd cert \<noteq> Returned then cert
       else if snd dl \<noteq> Returned then (fst cert @ fst prep @ fst dl, snd dl)
       else (fst cert @ fst prep @ fst dl @ fst dep, snd dep))"
    unfolding inst .
  then have "set evs \<subseteq> set (fst cert) \<union> set (fst prep) \<union> set (fst dl) \<union> set (fst dep)"
    by (auto split: if_splits)
  with assms(3) cert_evs dl_evs dep_evs show ?thesis unfolding prep_def by blast
qed

lemma install_inactive_returns:
  assumes v: "validate_domain e (domain ps) = Some (dmn, ip)"
    and c: "path_exists e (fullchain dmn) \<or>
            (\<exists>s. certbot_popen e = Inr s \<and> \<not> sublist ''168 hours'' s)"
    and dl: "snd (download_server (recursion_limit - stack_depth e) (attempts e) 0) = Returned"
    and st: "fst (status (is_active_stdout e)) \<noteq> Some True"
  shows "\<exists>evs. install e ps = (evs, Returned) \<and>
           System start_cmd \<in> set evs \<and> Run ''systemctl is-active juicity'' \<in> set evs"
proof -
  have "snd (if \<not> path_exists e (fullchain dmn)
             then (fst (CertBot_run e (CertBot_new dmn)),
                   fst (snd (CertBot_run e (CertBot_new dmn))))
             else ([], Returned)) = Returned"
    using c by (auto simp: CertBot_run_outcome)
  then show ?thesis
    using install_unfold[OF v] dl
    by (simp add: Let_def install_deploy_inactive[OF st])
qed

text \<open>
  Claim C8. Whenever the status queried after the start is not confirmed active (the
  response is not \<^verbatim>\<open>True\<close>), the client configuration file has not been written by the
  time \<^verbatim>\<open>install\<close> ends, and neither the share link nor the client configuration has
  been printed. Such a run exists: \<open>install_inactive_returns\<close> shows that the command
  then returns after starting the service and querying its status.
\<close>

theorem install_failure_containment:
  assumes "install e ps = (evs, out)"
    and "fst (status (is_active_stdout e)) \<noteq> Some True"
  shows "(\<forall>c. WriteText client_nekoray_config c \<notin> set evs) \<and>
         (\<forall>l. PrintShareLink l \<notin> set evs) \<and>
         (\<forall>a p v. PrintNekoRay a p v \<notin> set evs)"
proof -
  have k: "ev \<in> set evs \<Longrightarrow>
        (\<forall>c. ev \<noteq> WriteText client_nekoray_config c) \<and> (\<forall>l. ev \<noteq> PrintShareLink l) \<and>
        (\<forall>a p v. ev \<noteq> PrintNekoRay a p v)" for ev
  proof -
    assume m: "ev \<in> set evs"
    from install_inactive_events[OF assms m]
    consider (cert) dmn where "ev \<in> set (fst (CertBot_run e (CertBot_new dmn)))"
      | (prep) ip where "ev \<in> set (fst (install_prepare e ip))"
      | (rest) "ev \<in> {Urlretrieve URL zip_path, ExtractAll zip_path workstation,
               System chmod_cmd, System stop_cmd, Sleep} \<or>
         (\<exists>c. ev = WriteText server_config c) \<or> ev = System start_cmd \<or>
         ev = Run ''systemctl is-active juicity''"
      by blast
    then show ?thesis
    proof cases
      case cert
      then show ?thesis using CertBot_run_no_mutation(1,4,5) by blast
    next
      case prep
      then show ?thesis using install_prepare_events[of e ip] paths_distinct by auto
    next
      case rest
      then show ?thesis using paths_distinct by auto
    qed
  qed
  then show ?thesis by blast
qed

lemma failed_start_status: "fst (status (is_active_stdout failed_start_env)) \<noteq> Some True"
  by (simp add: failed_start_env_def status_def strip_def is_space_def nl_def Let_def)

lemma example_download:
  "snd (download_server (recursion_limit - 20) (\<lambda>i. Extracted) 0) = Returned"
  using download_server_retries[of 0 "\<lambda>i. Extracted" 0 "recursion_limit - 20"]
  by (simp add: recursion_limit_def)

theorem install_failure_containment_witness:
  "fst (status (is_active_stdout failed_start_env)) \<noteq> Some True \<and>
   (\<exists>evs. install failed_start_env example_params = (evs, Returned) \<and>
          System start_cmd \<in> set evs \<and> Run ''systemctl is-active juicity'' \<in> set evs \<and>
          (\<forall>c. WriteText client_nekoray_config c \<notin> set evs) \<and>
          (\<forall>l. PrintShareLink l \<notin> set evs) \<and>
          (\<forall>a p v. PrintNekoRay a p v \<notin> set evs))"
proof -
  have v: "validate_domain failed_start_env (domain example_params)
             = Some (''example.com'', ''1.2.3.4'')"
    by (simp add: validate_domain_def failed_start_env_def example_env_def example_params_def)
  have c: "path_exists failed_start_env (fullchain ''example.com'') \<or>
           (\<exists>s. certbot_popen failed_start_env = Inr s \<and> \<not> sublist ''168 hours'' s)"
    by (simp add: failed_start_env_def example_env_def)
  have d: "snd (download_server (recursion_limit - stack_depth failed_start_env)
                  (attempts failed_start_env) 0) = Returned"
    by (simp add: failed_start_env_def example_env_def example_download)
  from install_inactive_returns[OF v c d failed_start_status]
  obtain evs where i: "install failed_start_env example_params = (evs, Returned)"
    and r: "System start_cmd \<in> set evs" "Run ''systemctl is-active juicity'' \<in> set evs"
    by blast
  from install_failure_containment[OF i failed_start_status] i r failed_start_status
  show ?thesis by blast
qed

end
